theory Spec2Isabelle
  imports Main "HOL-Library.Sublist"
begin

section \<open>JavaScript string operations used by the crawler\<close>

text \<open>
  Strings are lists of 8-bit code units.  Each operation below is the JavaScript
  \<^verbatim>\<open>String.prototype\<close> method of the same name, restricted to the argument shapes
  the crawler uses (\<^verbatim>\<open>indexOf\<close>, \<^verbatim>\<open>lastIndexOf\<close> and \<^verbatim>\<open>split\<close> are only called with
  one-character separators).  An index result \<^verbatim>\<open>-1\<close> is \<open>None\<close>.
\<close>

definition startsWith :: "string \<Rightarrow> string \<Rightarrow> bool" where
  "startsWith s p = prefix p s"

definition endsWith :: "string \<Rightarrow> string \<Rightarrow> bool" where
  "endsWith s p = suffix p s"

fun str_includes :: "string \<Rightarrow> string \<Rightarrow> bool" where
  "str_includes [] sub = (sub = [])"
| "str_includes (c # cs) sub = (prefix sub (c # cs) \<or> str_includes cs sub)"

definition indexOf :: "string \<Rightarrow> char \<Rightarrow> nat option" where
  "indexOf s c = (if c \<in> set s then Some (length (takeWhile (\<lambda>x. x \<noteq> c) s)) else None)"

definition lastIndexOf :: "string \<Rightarrow> char \<Rightarrow> nat option" where
  "lastIndexOf s c =
     (if c \<in> set s then Some (length s - 1 - length (takeWhile (\<lambda>x. x \<noteq> c) (rev s))) else None)"

definition substring :: "string \<Rightarrow> nat \<Rightarrow> nat \<Rightarrow> string" where
  "substring s i j = take (j - i) (drop i s)"

definition substring_from :: "string \<Rightarrow> nat \<Rightarrow> string" where
  "substring_from s i = drop i s"

fun js_split :: "string \<Rightarrow> char \<Rightarrow> string list" where
  "js_split [] sep = [[]]"
| "js_split (c # cs) sep =
     (if c = sep then [] # js_split cs sep
      else (case js_split cs sep of [] \<Rightarrow> [[c]] | p # ps \<Rightarrow> (c # p) # ps))"

definition js_ws :: "char \<Rightarrow> bool" where
  \<comment> \<open>white space and line terminators among the code units below 256\<close>
  "js_ws c = (of_char c \<in> {9, 10, 11, 12, 13, 32, 160 :: nat})"

definition trim :: "string \<Rightarrow> string" where
  "trim s = rev (dropWhile js_ws (rev (dropWhile js_ws s)))"

definition lc_char :: "char \<Rightarrow> char" where
  "lc_char c =
     (let n = (of_char c :: nat)
      in if (65 \<le> n \<and> n \<le> 90) \<or> (192 \<le> n \<and> n \<le> 222 \<and> n \<noteq> 215)
         then char_of (n + 32) else c)"

definition toLowerCase :: "string \<Rightarrow> string" where
  "toLowerCase s = map lc_char s"

definition charAt_is :: "string \<Rightarrow> nat \<Rightarrow> char \<Rightarrow> bool" where
  \<comment> \<open>\<^verbatim>\<open>s[i] === c\<close>; an index out of range reads \<^verbatim>\<open>undefined\<close>, which equals no character\<close>
  "charAt_is s i c = (i < length s \<and> s ! i = c)"

section \<open>Data model\<close>

datatype error =
    InvalidUrl string        \<comment> \<open>\<^verbatim>\<open>TypeError\<close> of \<^verbatim>\<open>new URL(...)\<close> or of \<^verbatim>\<open>fileURLToPath\<close>\<close>
  | NetworkError string      \<comment> \<open>\<^verbatim>\<open>fetch\<close> rejected\<close>
  | MkdirError string        \<comment> \<open>\<^verbatim>\<open>fs.mkdir\<close> rejected\<close>

text \<open>The platform's \<^verbatim>\<open>URL\<close> object, by its components.\<close>

record URL =
  protocol :: string
  username :: string
  password :: string
  hostname :: string
  port :: string
  pathname :: string
  search :: string
  hash :: string

definition url_toString :: "URL \<Rightarrow> string" where
  \<comment> \<open>the URL serializer: \<^verbatim>\<open>url.toString()\<close>\<close>
  "url_toString u =
     protocol u @ ''//''
     @ (if username u = [] \<and> password u = [] then []
        else username u @ (if password u = [] then [] else '':'' @ password u) @ ''@'')
     @ hostname u
     @ (if port u = [] then [] else '':'' @ port u)
     @ pathname u @ search u @ hash u"

record UrlGroup =
  url :: string
  stack :: "string list option"

datatype ProcessUrlResult = OK | REDIRECTED | ERROR | IGNORED

text \<open>
  The outcome of a call that may throw.  A function that also changes the crawler returns
  the outcome together with the state it leaves behind, thrown or not.
\<close>

datatype 'a res = Ok 'a | Throw error

text \<open>
  A response as the crawler reads it: status, the two headers it looks at, and what the
  two external parsers make of the body (the elements the HTML rewriter visits, each a
  tag name with its attributes, and the targets the CSS URL extractor returns).
\<close>

type_synonym element = "string \<times> (string \<times> string) list"

record Response =
  status :: nat
  location :: "string option"
  contentType :: "string option"
  elements :: "element list"
  cssUrls :: "string list"

record MappingResult =
  mr_url :: string
  wakeUpServer :: bool

text \<open>What the crawler does to the outside world, in order.\<close>

datatype event =
    Fetch string
  | Tick nat                 \<comment> \<open>Modelled from the spec: \<^verbatim>\<open>tick(ms)\<close> of \<^verbatim>\<open>utils.ts\<close>, which is not
                                 among the sources, sleeps \<open>ms\<close> milliseconds\<close>
  | WakeUp string
  | Mkdir string
  | WriteFile string
  | LogError string

text \<open>
  The platform and the outside world.  The answers of the network and of the file system
  may depend on everything done so far, so they take the events so far.
\<close>

record world =
  parseUrl :: "string \<Rightarrow> URL option"                \<comment> \<open>\<^verbatim>\<open>new URL(s)\<close>\<close>
  parseUrlRel :: "string \<Rightarrow> URL \<Rightarrow> URL option"       \<comment> \<open>\<^verbatim>\<open>new URL(s, base)\<close>\<close>
  filePathOf :: "string \<Rightarrow> string option"          \<comment> \<open>\<^verbatim>\<open>fileURLToPath\<close> on a \<^verbatim>\<open>file:\<close> URL\<close>
  path_join :: "string \<Rightarrow> string \<Rightarrow> string"
  path_dirname :: "string \<Rightarrow> string"
  file_type :: "string \<Rightarrow> string"                  \<comment> \<open>the MIME type \<^verbatim>\<open>Bun.file(path).type\<close>\<close>
  fetch :: "event list \<Rightarrow> string \<Rightarrow> Response option"   \<comment> \<open>\<open>None\<close>: the request fails\<close>
  fs_mkdir :: "event list \<Rightarrow> string \<Rightarrow> bool"          \<comment> \<open>recursive mkdir succeeds\<close>
  fs_write :: "event list \<Rightarrow> string \<Rightarrow> bool"          \<comment> \<open>writing the file succeeds\<close>
  fs_stat :: "event list \<Rightarrow> string \<Rightarrow> nat option"     \<comment> \<open>\<^verbatim>\<open>ctimeMs\<close> of an existing file\<close>

text \<open>
  The crawler's fields that never change after construction: the options with their
  defaults applied, and the values the constructor derives from them.  \<open>resolveURL\<close> is
  the \<^verbatim>\<open>UrlMapping\<close> of \<^verbatim>\<open>urlMapping.ts\<close>, taken as a parameter.
\<close>

record crawler =
  newWebSite_basePath :: string
  newWebSite_lcBasePath :: string
  newWebSite_urlInfos :: URL
  requiredPrefix :: string
  requiredPrefix2 :: string
  requireRelocatableUrl :: bool
  rewriteThisUrls :: "string list option"
  scanThisUrls :: "string list option"
  resolveURL :: "string \<Rightarrow> MappingResult option"
  fileSystemWriter :: "string option"               \<comment> \<open>\<^verbatim>\<open>rootDir\<close> of the mirror cache\<close>
  pauseDuration_ms :: nat
  transformUrl :: "(string \<Rightarrow> string \<Rightarrow> string) option"     \<comment> \<open>url, comeFromPage\<close>
  canIgnoreIfAlreadyCrawled :: "(string \<Rightarrow> nat \<Rightarrow> string \<Rightarrow> bool) option"
  sortPagesToDownload :: "(string list \<Rightarrow> string list) option"
  onInvalidResponseCodeFound :: "(string \<Rightarrow> nat \<Rightarrow> Response \<Rightarrow> bool) option"
  canDownload :: "(string \<Rightarrow> bool \<Rightarrow> bool) option"
  onPageFullyDownloaded :: "(string \<Rightarrow> ProcessUrlResult \<Rightarrow> bool) option"

text \<open>
  The crawler's mutable fields.  Groups are objects shared between \<^verbatim>\<open>currentGroup\<close>,
  \<^verbatim>\<open>groupStack\<close> and the local variables of the traversal, so they live in a store and
  are held by reference.  \<^verbatim>\<open>options.forbiddenUrls\<close> grows through \<^verbatim>\<open>forbidUrlFrom\<close>.
\<close>

record cstate =
  urlDone :: "string list"
  groups :: "nat \<Rightarrow> UrlGroup"
  nextRef :: nat
  currentGroup :: nat
  groupStack :: "nat list"
  isStarted :: bool
  forbiddenUrls :: "string list option"
  events :: "event list"

definition currentGroup_url :: "cstate \<Rightarrow> string" where
  "currentGroup_url s = url (groups s (currentGroup s))"

section \<open>URL tools\<close>

primrec prependBack :: "nat \<Rightarrow> string \<Rightarrow> string" where
  \<comment> \<open>\<^verbatim>\<open>for (let i = 0; i < backCount; i++) url = "../" + url\<close>\<close>
  "prependBack 0 u = u"
| "prependBack (Suc n) u = prependBack n (''../'' @ u)"

definition urlTool_buildFileSystemUrl :: "crawler \<Rightarrow> cstate \<Rightarrow> string \<Rightarrow> string" where
  "urlTool_buildFileSystemUrl c s u0 =
     (if \<not> requireRelocatableUrl c then u0
      else
        let u1 = (case indexOf u0 CHR ''?'' of None \<Rightarrow> u0 | Some idx \<Rightarrow> substring u0 0 idx);
            u2 = (case indexOf u1 CHR ''#'' of None \<Rightarrow> u1 | Some idx \<Rightarrow> substring u1 0 idx);
            u3 = (if endsWith u2 ''/'' then u2 @ ''index.html''
                  else
                    let lastSegment =
                          (case lastIndexOf u2 CHR ''/'' of
                             None \<Rightarrow> u2
                           | Some lastSlash \<Rightarrow> substring_from u2 (lastSlash + 1))
                    in if \<not> str_includes lastSegment ''.'' then u2 @ ''/index.html'' else u2)
        in
          if startsWith u3 (newWebSite_lcBasePath c) then
            let u4 = substring_from u3 (length (newWebSite_lcBasePath c) + 1);
                currentUrl = substring_from (currentGroup_url s) (length (newWebSite_lcBasePath c) + 1)
            in
              if currentUrl = [] then u4
              else if u4 = currentUrl then u4
              else
                let backCount = length (js_split currentUrl CHR ''/'')
                                 - (if endsWith currentUrl ''/'' then 1 else 0)
                in prependBack backCount u4
          else u3)"

definition transformFoundUrl :: "crawler \<Rightarrow> cstate \<Rightarrow> string \<Rightarrow> bool \<Rightarrow> string" where
  "transformFoundUrl c s u0 enableRelocatable =
     (let u1 = (case transformUrl c of None \<Rightarrow> u0 | Some f \<Rightarrow> f u0 (currentGroup_url s))
      in if enableRelocatable \<and> requireRelocatableUrl c
         then urlTool_buildFileSystemUrl c s u1 else u1)"


fun rewriteLoop :: "string \<Rightarrow> string list \<Rightarrow> string \<Rightarrow> string" where
  "rewriteLoop base [] u = u"
| "rewriteLoop base (p # ps) u =
     (if startsWith u p then base @ substring_from u (length p) else rewriteLoop base ps u)"

definition rewriteSourceSiteUrl :: "crawler \<Rightarrow> string \<Rightarrow> string" where
  "rewriteSourceSiteUrl c u =
     (case rewriteThisUrls c of
        None \<Rightarrow> u
      | Some ps \<Rightarrow> rewriteLoop (newWebSite_basePath c) ps u)"

text \<open>
  The setters \<^verbatim>\<open>urlInfos.protocol = ...\<close> and \<^verbatim>\<open>urlInfos.port = ...\<close> are assignments
  to the component.
\<close>

definition resolveRelativeUrl :: "world \<Rightarrow> string \<Rightarrow> URL \<Rightarrow> string res" where
  "resolveRelativeUrl w u baseUrl =
     (if charAt_is u 0 CHR ''/'' then
        (if charAt_is u 1 CHR ''/'' then
           (case parseUrl w u of
              None \<Rightarrow> Throw (InvalidUrl u)
            | Some urlInfos \<Rightarrow>
                Ok (url_toString (urlInfos\<lparr>protocol := protocol baseUrl, port := port baseUrl\<rparr>)))
         else Ok (url_toString baseUrl @ substring_from u 1))
      else if charAt_is u 0 CHR ''.'' then
        (case parseUrlRel w u baseUrl of
           None \<Rightarrow> Throw (InvalidUrl u)
         | Some r \<Rightarrow> Ok (url_toString r))
      else Ok u)"

definition specialScheme :: "string \<Rightarrow> bool" where
  \<comment> \<open>the chain of \<^verbatim>\<open>startsWith\<close> tests that reject a URL with \<^verbatim>\<open>return null\<close>\<close>
  "specialScheme u =
     (startsWith u ''data:'' \<or> startsWith u ''javascript:'' \<or> startsWith u ''mailto:''
      \<or> startsWith u ''tel:'' \<or> startsWith u ''sms:'' \<or> startsWith u ''ftp:'')"

definition cleanUp_toAbsolute ::
  "world \<Rightarrow> crawler \<Rightarrow> cstate \<Rightarrow> string \<Rightarrow> bool \<Rightarrow> string option \<Rightarrow> string option res" where
  \<comment> \<open>the block of \<^verbatim>\<open>cleanUpUrlAux\<close> under \<^verbatim>\<open>if (!url.includes("://"))\<close>; \<open>Ok None\<close> is \<^verbatim>\<open>return null\<close>\<close>
  "cleanUp_toAbsolute w c s ub isCss currentUrl =
     (case
        (if charAt_is ub 0 CHR ''?'' then
           let cu = currentGroup_url s;
               cu' = (case indexOf cu CHR ''?'' of None \<Rightarrow> cu | Some idx \<Rightarrow> substring cu 0 idx)
           in Some (cu' @ ub)
         else if str_includes ub '':'' then (if specialScheme ub then None else Some ub)
         else Some ub)
      of
        None \<Rightarrow> Ok None
      | Some uc \<Rightarrow>
          if startsWith uc ''//'' then
            (if \<not> startsWith (toLowerCase uc) (requiredPrefix2 c) then Ok None
             else Ok (Some (protocol (newWebSite_urlInfos c) @ uc)))
          else if charAt_is uc 0 CHR ''/'' then
            (case resolveRelativeUrl w uc (newWebSite_urlInfos c) of
               Throw e \<Rightarrow> Throw e | Ok r \<Rightarrow> Ok (Some r))
          else if isCss then
            (case (case currentUrl of
                     None \<Rightarrow> None
                   | Some cu \<Rightarrow> parseUrl w cu) of
               None \<Rightarrow> Throw (InvalidUrl (case currentUrl of None \<Rightarrow> ''undefined'' | Some cu \<Rightarrow> cu))
             | Some b \<Rightarrow>
                 (case resolveRelativeUrl w uc b of Throw e \<Rightarrow> Throw e | Ok r \<Rightarrow> Ok (Some r)))
          else
            (case resolveRelativeUrl w uc (newWebSite_urlInfos c) of
               Throw e \<Rightarrow> Throw e | Ok r \<Rightarrow> Ok (Some r)))"

definition cleanUpUrlAux ::
  "world \<Rightarrow> crawler \<Rightarrow> cstate \<Rightarrow> string option \<Rightarrow> bool \<Rightarrow> string option \<Rightarrow> string option res" where
  "cleanUpUrlAux w c s url0 isCss currentUrl =
     (case url0 of
        None \<Rightarrow> Ok None
      | Some ua \<Rightarrow>
          if ua = [] then Ok None
          else
            let ub = trim ua
            in if ub = [] then Ok None
               else if charAt_is ub 0 CHR ''#'' then Ok None
               else
                 (case (if \<not> str_includes ub ''://''
                        then cleanUp_toAbsolute w c s ub isCss currentUrl
                        else Ok (Some (rewriteSourceSiteUrl c ub))) of
                    Throw e \<Rightarrow> Throw e
                  | Ok None \<Rightarrow> Ok None
                  | Ok (Some uc) \<Rightarrow>
                      if \<not> startsWith (toLowerCase uc) (requiredPrefix c) then Ok None
                      else Ok (Some (trim uc))))"

definition cleanUpUrl :: "world \<Rightarrow> crawler \<Rightarrow> cstate \<Rightarrow> string option \<Rightarrow> string option res" where
  "cleanUpUrl w c s url0 = cleanUpUrlAux w c s url0 False None"

definition cleanUpCssUrl :: "world \<Rightarrow> crawler \<Rightarrow> cstate \<Rightarrow> string \<Rightarrow> string \<Rightarrow> string option res" where
  "cleanUpCssUrl w c s url0 baseUrl = cleanUpUrlAux w c s (Some url0) True (Some baseUrl)"

section \<open>Admission: \<^verbatim>\<open>pushUrl\<close> and \<^verbatim>\<open>forbidUrlFrom\<close>\<close>

definition forbidUrlFrom :: "world \<Rightarrow> crawler \<Rightarrow> string \<Rightarrow> cstate \<Rightarrow> unit res \<times> cstate" where
  "forbidUrlFrom w c u s =
     (case cleanUpUrl w c s (Some u) of
        Throw e \<Rightarrow> (Throw e, s)
      | Ok None \<Rightarrow> (Ok (), s)
      | Ok (Some cleanedUrl) \<Rightarrow>
          if cleanedUrl = [] then (Ok (), s)
          else (Ok (), s\<lparr>forbiddenUrls :=
                  Some ((case forbiddenUrls s of None \<Rightarrow> [] | Some fs \<Rightarrow> fs) @ [cleanedUrl])\<rparr>))"

definition isForbidden :: "cstate \<Rightarrow> string \<Rightarrow> bool" where
  \<comment> \<open>the two tests of \<^verbatim>\<open>pushUrl\<close> under \<^verbatim>\<open>if (this.options.forbiddenUrls)\<close>; the result
      of \<^verbatim>\<open>find\<close> is tested for truthiness, and the empty string is falsy\<close>
  "isForbidden s u =
     (case forbiddenUrls s of
        None \<Rightarrow> False
      | Some fs \<Rightarrow>
          if u \<in> set fs then True
          else (case find (\<lambda>p. startsWith u p) fs of
                  None \<Rightarrow> False
                | Some found \<Rightarrow> found \<noteq> []))"

definition stackPush :: "string \<Rightarrow> cstate \<Rightarrow> cstate" where
  \<comment> \<open>\<^verbatim>\<open>if (!this.currentGroup.stack) this.currentGroup.stack = []; this.currentGroup.stack.push(url)\<close>\<close>
  "stackPush u s =
     (let g = groups s (currentGroup s);
          st = (case stack g of None \<Rightarrow> [] | Some xs \<Rightarrow> xs)
      in s\<lparr>groups := (groups s)(currentGroup s := g\<lparr>stack := Some (st @ [u])\<rparr>)\<rparr>)"

definition pushUrl :: "world \<Rightarrow> crawler \<Rightarrow> string option \<Rightarrow> cstate \<Rightarrow> string res \<times> cstate" where
  "pushUrl w c url0 s =
     (case url0 of
        None \<Rightarrow> (Ok [], s)
      | Some ua \<Rightarrow>
          if ua = [] then (Ok [], s)
          else
            (case cleanUpUrl w c s (Some ua) of
               Throw e \<Rightarrow> (Throw e, s)
             | Ok None \<Rightarrow> (Ok [], s)
             | Ok (Some u) \<Rightarrow>
                 if u = [] then (Ok [], s)
                 else if u \<in> set (urlDone s) then (Ok u, s)
                 else
                   let s1 = s\<lparr>urlDone := urlDone s @ [u]\<rparr>
                   in if isForbidden s1 u then (Ok u, s1)
                      else (Ok u, stackPush u s1)))"


section \<open>HTML rewriter handlers\<close>

definition getAttribute :: "element \<Rightarrow> string \<Rightarrow> string option" where
  "getAttribute el name = map_of (snd el) name"

fun setAttr :: "(string \<times> string) list \<Rightarrow> string \<Rightarrow> string \<Rightarrow> (string \<times> string) list" where
  "setAttr [] name v = [(name, v)]"
| "setAttr ((k, x) # kvs) name v =
     (if k = name then (k, v) # kvs else (k, x) # setAttr kvs name v)"

definition setAttribute :: "element \<Rightarrow> string \<Rightarrow> string \<Rightarrow> element" where
  "setAttribute el name v = (fst el, setAttr (snd el) name v)"

definition urlAttrHandler ::
  "world \<Rightarrow> crawler \<Rightarrow> string \<Rightarrow> element \<Rightarrow> cstate \<Rightarrow> element res \<times> cstate" where
  \<comment> \<open>the handlers for \<^verbatim>\<open>href\<close> and for \<^verbatim>\<open>src\<close>, which differ in the attribute name only\<close>
  "urlAttrHandler w c name el s =
     (case getAttribute el name of
        None \<Rightarrow> (Ok el, s)
      | Some v \<Rightarrow>
          if v = [] then (Ok el, s)
          else
            (case pushUrl w c (Some v) s of
               (Throw e, s1) \<Rightarrow> (Throw e, s1)
             | (Ok u, s1) \<Rightarrow>
                 if u \<noteq> [] then (Ok (setAttribute el name (transformFoundUrl c s1 u True)), s1)
                 else (Ok el, s1)))"

fun srcsetLoop ::
  "world \<Rightarrow> crawler \<Rightarrow> string list \<Rightarrow> string \<Rightarrow> cstate \<Rightarrow> string res \<times> cstate" where
  \<comment> \<open>\<^verbatim>\<open>parts.forEach(...)\<close>, with \<^verbatim>\<open>newSrcset\<close> as accumulator\<close>
  "srcsetLoop w c [] newSrcset s = (Ok newSrcset, s)"
| "srcsetLoop w c (p0 # ps) newSrcset s =
     (let p = trim p0
      in case indexOf p CHR 0x20 of
           None \<Rightarrow> srcsetLoop w c ps newSrcset s
         | Some idx \<Rightarrow>
             let u = substring p 0 idx;
                 size = substring_from p (idx + 1)
             in case pushUrl w c (Some u) s of
                  (Throw e, s1) \<Rightarrow> (Throw e, s1)
                | (Ok newUrl, s1) \<Rightarrow>
                    let u1 = (if u \<noteq> [] then newUrl else u);
                        u2 = transformFoundUrl c s1 u1 True
                    in srcsetLoop w c ps (newSrcset @ '','' @ u2 @ '' '' @ size) s1)"

definition srcsetHandler :: "world \<Rightarrow> crawler \<Rightarrow> element \<Rightarrow> cstate \<Rightarrow> element res \<times> cstate" where
  "srcsetHandler w c el s =
     (case getAttribute el ''srcset'' of
        None \<Rightarrow> (Ok el, s)
      | Some srcset \<Rightarrow>
          if srcset = [] then (Ok el, s)
          else
            (case srcsetLoop w c (js_split srcset CHR '','') [] s of
               (Throw e, s1) \<Rightarrow> (Throw e, s1)
             | (Ok newSrcset, s1) \<Rightarrow>
                 (Ok (setAttribute el ''srcset'' (substring_from newSrcset 1)), s1)))"

definition rewriteElement :: "world \<Rightarrow> crawler \<Rightarrow> element \<Rightarrow> cstate \<Rightarrow> element res \<times> cstate" where
  \<comment> \<open>the three handlers in the order \<^verbatim>\<open>getRewriter\<close> registers them, each on its selector\<close>
  "rewriteElement w c el s =
     (case (if fst el \<in> {''a'', ''link''} then urlAttrHandler w c ''href'' el s else (Ok el, s)) of
        (Throw e, s1) \<Rightarrow> (Throw e, s1)
      | (Ok el1, s1) \<Rightarrow>
          (case (if fst el1 \<in> {''img'', ''script'', ''iframe'', ''source''}
                 then urlAttrHandler w c ''src'' el1 s1 else (Ok el1, s1)) of
             (Throw e, s2) \<Rightarrow> (Throw e, s2)
           | (Ok el2, s2) \<Rightarrow>
               if fst el2 = ''img'' then srcsetHandler w c el2 s2 else (Ok el2, s2)))"

fun processHtml :: "world \<Rightarrow> crawler \<Rightarrow> element list \<Rightarrow> cstate \<Rightarrow> element list res \<times> cstate" where
  "processHtml w c [] s = (Ok [], s)"
| "processHtml w c (el # els) s =
     (case rewriteElement w c el s of
        (Throw e, s1) \<Rightarrow> (Throw e, s1)
      | (Ok el', s1) \<Rightarrow>
          (case processHtml w c els s1 of
             (Throw e, s2) \<Rightarrow> (Throw e, s2)
           | (Ok els', s2) \<Rightarrow> (Ok (el' # els'), s2)))"

section \<open>Mirror cache\<close>

definition path_extname :: "string \<Rightarrow> string" where
  \<comment> \<open>\<^verbatim>\<open>path.extname\<close> on POSIX paths: from the last dot of the last segment, unless that
      dot is the segment's first character or the segment is \<^verbatim>\<open>..\<close>\<close>
  "path_extname p =
     (let stripped = rev (dropWhile (\<lambda>x. x = CHR ''/'') (rev p));
          base = rev (takeWhile (\<lambda>x. x \<noteq> CHR ''/'') (rev stripped))
      in case lastIndexOf base CHR ''.'' of
           None \<Rightarrow> []
         | Some i \<Rightarrow> if i = 0 \<or> base = ''..'' then [] else substring_from base i)"

text \<open>
  The three setters of \<^verbatim>\<open>calKey\<close>, as the platform's \<^verbatim>\<open>URL\<close> object carries them out.
  The protocol setter leaves the URL as it is when the new scheme and the old one are not
  both special or both not special, and when the new scheme is \<^verbatim>\<open>file:\<close> and the URL has
  credentials or a port.  A \<^verbatim>\<open>file:\<close> URL has no host \<^verbatim>\<open>localhost\<close>: it has the empty host
  instead.
\<close>

definition isSpecialProtocol :: "string \<Rightarrow> bool" where
  "isSpecialProtocol p = (p \<in> set [''http:'', ''https:'', ''ws:'', ''wss:'', ''ftp:'', ''file:''])"

definition url_setHostname :: "URL \<Rightarrow> string \<Rightarrow> URL" where
  "url_setHostname u h =
     (if protocol u = ''file:'' \<and> h = ''localhost'' then u\<lparr>hostname := []\<rparr>
      else u\<lparr>hostname := h\<rparr>)"

definition url_setPort :: "URL \<Rightarrow> string \<Rightarrow> URL" where
  "url_setPort u p = u\<lparr>port := p\<rparr>"

definition url_setProtocol :: "URL \<Rightarrow> string \<Rightarrow> URL" where
  "url_setProtocol u p =
     (if isSpecialProtocol (protocol u) \<noteq> isSpecialProtocol p then u
      else if (username u \<noteq> [] \<or> password u \<noteq> [] \<or> port u \<noteq> []) \<and> p = ''file:'' then u
      else if protocol u = ''file:'' \<and> hostname u = [] then u
      else
        let u1 = u\<lparr>protocol := p\<rparr>
        in if p = ''file:'' \<and> hostname u1 = ''localhost'' then u1\<lparr>hostname := []\<rparr> else u1)"

definition urlScheme :: "string \<Rightarrow> string" where
  \<comment> \<open>the scheme of a URL string: what stands before its first colon\<close>
  "urlScheme s = takeWhile (\<lambda>x. x \<noteq> CHR '':'') s"

definition fileURLToPath :: "world \<Rightarrow> string \<Rightarrow> string option" where
  \<comment> \<open>\<^verbatim>\<open>fileURLToPath\<close> throws for a URL whose scheme is not \<^verbatim>\<open>file\<close>; for a \<^verbatim>\<open>file:\<close> URL it
      is the platform's conversion\<close>
  "fileURLToPath w s = (if urlScheme s \<noteq> ''file'' then None else filePathOf w s)"

definition calKey :: "world \<Rightarrow> URL \<Rightarrow> string res" where
  "calKey w u0 =
     (let u1 = url_setHostname u0 ''localhost'';
          u2 = url_setPort u1 [];
          u3 = url_setProtocol u2 ''file:'';
          sURL = url_toString u3
      in case fileURLToPath w sURL of
           None \<Rightarrow> Throw (InvalidUrl sURL)
         | Some k \<Rightarrow> Ok k)"

definition calcFilePath :: "world \<Rightarrow> string \<Rightarrow> URL \<Rightarrow> string res" where
  "calcFilePath w rootDir u =
     (case calKey w u of
        Throw e \<Rightarrow> Throw e
      | Ok k \<Rightarrow>
          let fp = path_join w rootDir k
          in if endsWith fp ''/'' then Ok (fp @ ''index.html'')
             else
               let ext = path_extname fp
               in if ext = [] then Ok (fp @ ''/index.html'') else Ok fp)"

definition addToCache ::
  "world \<Rightarrow> string \<Rightarrow> URL \<Rightarrow> Response \<Rightarrow> event list \<Rightarrow> Response res \<times> event list" where
  "addToCache w rootDir u response evs =
     (if status response \<noteq> 200 then (Ok response, evs)
      else
        (case calcFilePath w rootDir u of
           Throw e \<Rightarrow> (Throw e, evs)
         | Ok filePath \<Rightarrow>
             let d = path_dirname w filePath;
                 evs1 = evs @ [Mkdir d]
             in if \<not> fs_mkdir w evs d then (Throw (MkdirError d), evs1)
                else
                  let evs2 = evs1 @ [WriteFile filePath]
                  in if fs_write w evs1 filePath
                     then (Ok (response\<lparr>status := 200, location := None,
                                 contentType := Some (file_type w filePath)\<rparr>), evs2)
                     else (Ok \<lparr>status = 500, location = None,
                               contentType = Some ''text/plain;charset=UTF-8'',
                               elements = [], cssUrls = []\<rparr>,
                           evs2 @ [LogError filePath])))"

definition hasInCache :: "world \<Rightarrow> string \<Rightarrow> URL \<Rightarrow> event list \<Rightarrow> (nat \<times> string) option res" where
  "hasInCache w rootDir u evs =
     (case calcFilePath w rootDir u of
        Throw e \<Rightarrow> Throw e
      | Ok filePath \<Rightarrow>
          (case fs_stat w evs filePath of
             None \<Rightarrow> Ok None
           | Some addedDate \<Rightarrow> Ok (Some (addedDate, filePath))))"

text \<open>
  The second cache class, \<^verbatim>\<open>DirectFileCache\<close>, takes the URL as a string and parses it
  in \<^verbatim>\<open>calKey\<close>; its \<^verbatim>\<open>addToCache\<close> returns nothing.
\<close>

definition direct_calKey :: "world \<Rightarrow> string \<Rightarrow> string res" where
  "direct_calKey w u =
     (case parseUrl w u of
        None \<Rightarrow> Throw (InvalidUrl u)
      | Some url2 \<Rightarrow> calKey w url2)"

definition direct_calcFilePath :: "world \<Rightarrow> string \<Rightarrow> string \<Rightarrow> string res" where
  "direct_calcFilePath w rootDir u =
     (case direct_calKey w u of
        Throw e \<Rightarrow> Throw e
      | Ok k \<Rightarrow>
          let fp = path_join w rootDir k
          in if endsWith fp ''/'' then Ok (fp @ ''index.html'')
             else
               let ext = path_extname fp
               in if ext = [] then Ok (fp @ ''/index.html'') else Ok fp)"



section \<open>Traversal\<close>

definition gExtensionForResourceType :: "string list" where
  "gExtensionForResourceType =
     [''.css'', ''.js'', ''.jpg'', ''.png'', ''.jpeg'', ''.gif'',
      ''.woff'', ''.woff2'', ''.ttf'', ''.txt'', ''.avif'']"

definition isResource :: "world \<Rightarrow> string \<Rightarrow> bool res" where
  "isResource w u0 =
     (case parseUrl w u0 of
        None \<Rightarrow> Throw (InvalidUrl u0)
      | Some parsed \<Rightarrow>
          let u = pathname parsed
          in case lastIndexOf u CHR ''.'' of
               None \<Rightarrow> Ok False
             | Some idx \<Rightarrow> Ok (substring_from u idx \<in> set gExtensionForResourceType))"

definition addEvent :: "event \<Rightarrow> cstate \<Rightarrow> cstate" where
  "addEvent e s = s\<lparr>events := events s @ [e]\<rparr>"

fun cssLoop :: "world \<Rightarrow> crawler \<Rightarrow> string list \<Rightarrow> string \<Rightarrow> cstate \<Rightarrow> unit res \<times> cstate" where
  \<comment> \<open>\<^verbatim>\<open>cssUrls.forEach(...)\<close> in \<^verbatim>\<open>processUrl\<close>\<close>
  "cssLoop w c [] u s = (Ok (), s)"
| "cssLoop w c (x # xs) u s =
     (case cleanUpCssUrl w c s x u of
        Throw e \<Rightarrow> (Throw e, s)
      | Ok None \<Rightarrow> cssLoop w c xs u s
      | Ok (Some cleanedUrl) \<Rightarrow>
          if cleanedUrl = [] then cssLoop w c xs u s
          else
            (case pushUrl w c (Some cleanedUrl) s of
               (Throw e, s1) \<Rightarrow> (Throw e, s1)
             | (Ok _, s1) \<Rightarrow> cssLoop w c xs u s1))"

definition processBody ::
  "world \<Rightarrow> crawler \<Rightarrow> string \<Rightarrow> string \<Rightarrow> Response \<Rightarrow> cstate \<Rightarrow> ProcessUrlResult res \<times> cstate" where
  \<comment> \<open>\<^verbatim>\<open>processUrl\<close> from the \<^verbatim>\<open>Content-Type\<close> test to \<^verbatim>\<open>return ProcessUrlResult.OK\<close>, reached
      with status 200; the notification hook \<^verbatim>\<open>onHtml\<close> is left out\<close>
  "processBody w c u transformedUrl res0 s =
     (case
        (case contentType res0 of
           None \<Rightarrow> (Ok res0, s)
         | Some ct \<Rightarrow>
             if ct = [] then (Ok res0, s)
             else if startsWith ct ''text/html'' then
               (case processHtml w c (elements res0) s of
                  (Throw e, s1) \<Rightarrow> (Throw e, s1)
                | (Ok html, s1) \<Rightarrow> (Ok (res0\<lparr>status := 200, elements := html\<rparr>), s1))
             else if startsWith ct ''text/css'' then
               (case (if cssUrls res0 \<noteq> [] then cssLoop w c (cssUrls res0) u s else (Ok (), s)) of
                  (Throw e, s1) \<Rightarrow> (Throw e, s1)
                | (Ok _, s1) \<Rightarrow> (Ok (res0\<lparr>status := 200\<rparr>), s1))
             else (Ok res0, s))
      of
        (Throw e, s1) \<Rightarrow> (Throw e, s1)
      | (Ok res1, s1) \<Rightarrow>
          (case fileSystemWriter c of
             None \<Rightarrow> (Ok OK, s1)
           | Some rootDir \<Rightarrow>
               (case parseUrl w transformedUrl of
                  None \<Rightarrow> (Throw (InvalidUrl transformedUrl), s1)
                | Some tu \<Rightarrow>
                    (case addToCache w rootDir tu res1 (events s1) of
                       (Throw e, evs) \<Rightarrow> (Throw e, s1\<lparr>events := evs\<rparr>)
                     | (Ok _, evs) \<Rightarrow> (Ok OK, s1\<lparr>events := evs\<rparr>)))))"

text \<open>
  The \<^verbatim>\<open>while (true)\<close> loop of \<^verbatim>\<open>processUrl\<close>.  With a hook that always asks for another
  try it never ends, so the loop is a partial function: \<open>None\<close> is a run that does not
  return.
\<close>

partial_function (option) fetchLoop ::
  "world \<Rightarrow> crawler \<Rightarrow> string \<Rightarrow> MappingResult \<Rightarrow> string \<Rightarrow> nat \<Rightarrow> cstate
     \<Rightarrow> (ProcessUrlResult res \<times> cstate) option" where
  "fetchLoop w c u m transformedUrl retryCount s =
     (let s1 = addEvent (Fetch (mr_url m)) s
      in case fetch w (events s) (mr_url m) of
           None \<Rightarrow> Some (Throw (NetworkError (mr_url m)), s1)
         | Some res0 \<Rightarrow>
             if status res0 \<noteq> 200 then
               (if status res0 \<ge> 300 \<and> status res0 < 400 then
                  (case (case location res0 of
                           None \<Rightarrow> (Ok [], s1)
                         | Some loc \<Rightarrow> if loc = [] then (Ok [], s1) else pushUrl w c (Some loc) s1) of
                     (Throw e, s2) \<Rightarrow> Some (Throw e, s2)
                   | (Ok _, s2) \<Rightarrow> Some (Ok REDIRECTED, s2))
                else
                  (case onInvalidResponseCodeFound c of
                     Some hook \<Rightarrow>
                       if hook u retryCount res0
                       then fetchLoop w c u m transformedUrl (retryCount + 1) s1
                       else Some (Ok ERROR, addEvent (LogError u) s1)
                   | None \<Rightarrow>
                       if retryCount < 3
                       then fetchLoop w c u m transformedUrl (retryCount + 1)
                              (addEvent (Tick (1000 * retryCount)) s1)
                       else Some (Ok ERROR, addEvent (LogError u) s1)))
             else Some (processBody w c u transformedUrl res0 s1))"

declare fetchLoop.simps [code]

definition canIgnore ::
  "world \<Rightarrow> crawler \<Rightarrow> string \<Rightarrow> string \<Rightarrow> MappingResult \<Rightarrow> cstate \<Rightarrow> bool res" where
  \<comment> \<open>the block of \<^verbatim>\<open>processUrl\<close> under
      \<^verbatim>\<open>if (this.fileSystemWriter && this.options.canIgnoreIfAlreadyCrawled)\<close>: \<open>Ok True\<close> when
      it returns \<^verbatim>\<open>IGNORED\<close>\<close>
  "canIgnore w c partialUrl transformedUrl mappingResult s =
     (case (fileSystemWriter c, canIgnoreIfAlreadyCrawled c) of
        (Some rootDir, Some hook) \<Rightarrow>
          (case parseUrl w transformedUrl of
             None \<Rightarrow> Throw (InvalidUrl transformedUrl)
           | Some tu \<Rightarrow>
               (case hasInCache w rootDir tu (events s) of
                  Throw e \<Rightarrow> Throw e
                | Ok None \<Rightarrow> Ok False
                | Ok (Some (addedDate, filePath)) \<Rightarrow>
                    Ok (hook partialUrl addedDate (mr_url mappingResult))))
      | _ \<Rightarrow> Ok False)"

definition processUrl ::
  "world \<Rightarrow> crawler \<Rightarrow> string \<Rightarrow> cstate \<Rightarrow> (ProcessUrlResult res \<times> cstate) option" where
  \<comment> \<open>the notification hook \<^verbatim>\<open>onUrl\<close> is left out\<close>
  "processUrl w c u s =
     (let partialUrl = substring_from u (length (newWebSite_basePath c))
      in case resolveURL c partialUrl of
           None \<Rightarrow> Some (Ok IGNORED, s)
         | Some mappingResult \<Rightarrow>
             let transformedUrl =
                   (if fileSystemWriter c \<noteq> None then transformFoundUrl c s u False else u)
             in case canIgnore w c partialUrl transformedUrl mappingResult s of
                  Throw e \<Rightarrow> Some (Throw e, s)
                | Ok True \<Rightarrow> Some (Ok IGNORED, s)
                | Ok False \<Rightarrow>
                    let s1 = (if wakeUpServer mappingResult
                              then addEvent (WakeUp (mr_url mappingResult)) s else s);
                        s2 = (if pauseDuration_ms c \<noteq> 0
                              then addEvent (Tick (pauseDuration_ms c)) s1 else s1)
                    in fetchLoop w c u mappingResult transformedUrl 0 s2)"

definition allowed :: "crawler \<Rightarrow> string \<Rightarrow> bool \<Rightarrow> bool" where
  \<comment> \<open>\<^verbatim>\<open>if (this.options.canDownload) { if (!this.options.canDownload(url, r)) return; }\<close>\<close>
  "allowed c u r = (case canDownload c of None \<Rightarrow> True | Some f \<Rightarrow> f u r)"

fun partitionStack ::
  "world \<Rightarrow> crawler \<Rightarrow> string list \<Rightarrow> string list option \<Rightarrow> string list option
     \<Rightarrow> (string list option \<times> string list option) res" where
  \<comment> \<open>\<^verbatim>\<open>group.stack.forEach(...)\<close> in \<^verbatim>\<open>processGroup\<close>, filling \<^verbatim>\<open>isResource\<close> and \<^verbatim>\<open>isNotResource\<close>\<close>
  "partitionStack w c [] isRes isNotRes = Ok (isRes, isNotRes)"
| "partitionStack w c (u # us) isRes isNotRes =
     (case isResource w u of
        Throw e \<Rightarrow> Throw e
      | Ok True \<Rightarrow>
          if \<not> allowed c u True then partitionStack w c us isRes isNotRes
          else partitionStack w c us
                 (Some ((case isRes of None \<Rightarrow> [] | Some xs \<Rightarrow> xs) @ [u])) isNotRes
      | Ok False \<Rightarrow>
          if \<not> allowed c u False then partitionStack w c us isRes isNotRes
          else partitionStack w c us isRes
                 (Some ((case isNotRes of None \<Rightarrow> [] | Some xs \<Rightarrow> xs) @ [u])))"

definition newGroup :: "UrlGroup \<Rightarrow> cstate \<Rightarrow> nat \<times> cstate" where
  \<comment> \<open>a new group object in the store\<close>
  "newGroup g s = (nextRef s, s\<lparr>groups := (groups s)(nextRef s := g), nextRef := Suc (nextRef s)\<rparr>)"

fun enqueuePages :: "string list \<Rightarrow> cstate \<Rightarrow> cstate" where
  \<comment> \<open>\<^verbatim>\<open>isNotResource.forEach(url => { this.groupStack.push({url}) })\<close>\<close>
  "enqueuePages [] s = s"
| "enqueuePages (u # us) s =
     (case newGroup \<lparr>url = u, stack = None\<rparr> s of
        (r, s1) \<Rightarrow> enqueuePages us (s1\<lparr>groupStack := groupStack s1 @ [r]\<rparr>))"

definition setStack :: "nat \<Rightarrow> string list option \<Rightarrow> cstate \<Rightarrow> cstate" where
  "setStack g st s = s\<lparr>groups := (groups s)(g := (groups s g)\<lparr>stack := st\<rparr>)\<rparr>"

fun drainFor :: "world \<Rightarrow> crawler \<Rightarrow> string list \<Rightarrow> cstate \<Rightarrow> (unit res \<times> cstate) option" where
  \<comment> \<open>\<^verbatim>\<open>for (let i = 0; i < resources.length; i++)\<close>; the notification hook
      \<^verbatim>\<open>onResourceDownloaded\<close> is left out\<close>
  "drainFor w c [] s = Some (Ok (), s)"
| "drainFor w c (resUrl # rest) s =
     Option.bind (processUrl w c resUrl s)
       (\<lambda>(r, s1). case r of Throw e \<Rightarrow> Some (Throw e, s1) | Ok resState \<Rightarrow> drainFor w c rest s1)"

partial_function (option) drainLoop ::
  "world \<Rightarrow> crawler \<Rightarrow> nat \<Rightarrow> string list option \<Rightarrow> cstate \<Rightarrow> (unit res \<times> cstate) option" where
  \<comment> \<open>\<^verbatim>\<open>while (isResource)\<close>\<close>
  "drainLoop w c g isRes s =
     (case isRes of
        None \<Rightarrow> Some (Ok (), s)
      | Some resources \<Rightarrow>
          Option.bind (drainFor w c resources s)
            (\<lambda>(r, s1). case r of
                 Throw e \<Rightarrow> Some (Throw e, s1)
               | Ok _ \<Rightarrow>
                   (case stack (groups s1 g) of
                      Some st \<Rightarrow> drainLoop w c g (Some st) (setStack g None s1)
                    | None \<Rightarrow> drainLoop w c g None s1)))"

declare drainLoop.simps [code]

definition processGroup :: "world \<Rightarrow> crawler \<Rightarrow> nat \<Rightarrow> cstate \<Rightarrow> (bool res \<times> cstate) option" where
  "processGroup w c g s0 =
     Option.bind (processUrl w c (url (groups s0 g)) (s0\<lparr>currentGroup := g\<rparr>))
       (\<lambda>(r, s1). case r of
            Throw e \<Rightarrow> Some (Throw e, s1)
          | Ok processResponse \<Rightarrow>
              Option.bind
                (case stack (groups s1 g) of
                   None \<Rightarrow> Some (Ok (), s1)
                 | Some st \<Rightarrow>
                     (case partitionStack w c st None None of
                        Throw e \<Rightarrow> Some (Throw e, s1)
                      | Ok (isRes, isNotRes) \<Rightarrow>
                          let s2 = setStack g None s1;
                              s3 = (case isNotRes of
                                      None \<Rightarrow> s2
                                    | Some pages \<Rightarrow>
                                        (case sortPagesToDownload c of
                                           Some sortHook \<Rightarrow>
                                             if length pages > 1 then enqueuePages (sortHook pages) s2
                                             else enqueuePages pages s2
                                         | None \<Rightarrow> enqueuePages pages s2))
                          in drainLoop w c g isRes s3))
                (\<lambda>(r2, s4). case r2 of
                     Throw e \<Rightarrow> Some (Throw e, s4)
                   | Ok _ \<Rightarrow>
                       (case onPageFullyDownloaded c of
                          None \<Rightarrow> Some (Ok True, s4)
                        | Some hook \<Rightarrow>
                            if hook (url (groups s4 g)) processResponse = False
                            then Some (Ok False, s4) else Some (Ok True, s4))))"

partial_function (option) processStackLoop ::
  "world \<Rightarrow> crawler \<Rightarrow> cstate \<Rightarrow> (unit res \<times> cstate) option" where
  \<comment> \<open>\<^verbatim>\<open>while (true)\<close> in \<^verbatim>\<open>processStack\<close>, with \<^verbatim>\<open>this.isStarted = false\<close> at each exit\<close>
  "processStackLoop w c s =
     (case groupStack s of
        [] \<Rightarrow> Some (Ok (), s\<lparr>isStarted := False\<rparr>)
      | g # rest \<Rightarrow>
          Option.bind (processGroup w c g (s\<lparr>groupStack := rest\<rparr>))
            (\<lambda>(r, s1). case r of
                 Throw e \<Rightarrow> Some (Throw e, s1)
               | Ok continue \<Rightarrow>
                   if \<not> continue then Some (Ok (), s1\<lparr>isStarted := False\<rparr>)
                   else processStackLoop w c s1))"

declare processStackLoop.simps [code]

definition processStack :: "world \<Rightarrow> crawler \<Rightarrow> cstate \<Rightarrow> (unit res \<times> cstate) option" where
  "processStack w c s =
     (if isStarted s then Some (Ok (), s)
      else processStackLoop w c (s\<lparr>isStarted := True\<rparr>))"

fun pushAll :: "world \<Rightarrow> crawler \<Rightarrow> string list \<Rightarrow> cstate \<Rightarrow> unit res \<times> cstate" where
  \<comment> \<open>\<^verbatim>\<open>for (...) this.pushUrl(this.options.scanThisUrls[i])\<close> in \<^verbatim>\<open>start\<close>\<close>
  "pushAll w c [] s = (Ok (), s)"
| "pushAll w c (u # us) s =
     (case pushUrl w c (Some u) s of
        (Throw e, s1) \<Rightarrow> (Throw e, s1)
      | (Ok _, s1) \<Rightarrow> pushAll w c us s1)"

definition start :: "world \<Rightarrow> crawler \<Rightarrow> string option \<Rightarrow> cstate \<Rightarrow> (unit res \<times> cstate) option" where
  "start w c entryPoint0 s =
     (let entryPoint = (case entryPoint0 of
                          None \<Rightarrow> newWebSite_basePath c
                        | Some e \<Rightarrow> if e = [] then newWebSite_basePath c else e)
      in case newGroup \<lparr>url = entryPoint, stack = Some []\<rparr> s of
           (r, s1) \<Rightarrow>
             let s2 = s1\<lparr>groupStack := groupStack s1 @ [r], currentGroup := r\<rparr>
             in case (case scanThisUrls c of
                        None \<Rightarrow> (Ok (), s2)
                      | Some us \<Rightarrow> pushAll w c us s2) of
                  (Throw e, s3) \<Rightarrow> Some (Throw e, s3)
                | (Ok _, s3) \<Rightarrow> processStack w c s3)"

definition initialState :: "string list option \<Rightarrow> cstate" where
  \<comment> \<open>the field initialisers of the class; the argument is \<^verbatim>\<open>options.forbiddenUrls\<close>\<close>
  "initialState forbidden =
     \<lparr>urlDone = [], groups = (\<lambda>_. \<lparr>url = [], stack = Some []\<rparr>), nextRef = 1,
      currentGroup = 0, groupStack = [], isStarted = False,
      forbiddenUrls = forbidden, events = []\<rparr>"


section \<open>The specification's wording, for comparison with the code\<close>


definition spec_lastSegment :: "string \<Rightarrow> string" where
  "spec_lastSegment p = rev (takeWhile (\<lambda>x. x \<noteq> CHR ''/'') (rev p))"





definition spec_hasExtension :: "string \<Rightarrow> bool" where
  \<comment> \<open>a path segment has an extension when it has a dot after its first character and is
      not \<^verbatim>\<open>..\<close>\<close>
  "spec_hasExtension seg = (CHR ''.'' \<in> set (drop 1 seg) \<and> seg \<noteq> ''..'')"

definition spec_withIndex :: "string \<Rightarrow> string" where
  \<comment> \<open>the index.html convention on a file path: \<^verbatim>\<open>index.html\<close> after a trailing slash,
      \<^verbatim>\<open>/index.html\<close> after a last segment without extension\<close>
  "spec_withIndex fp =
     (if fp \<noteq> [] \<and> last fp = CHR ''/'' then fp @ ''index.html''
      else if \<not> spec_hasExtension (spec_lastSegment fp) then fp @ ''/index.html''
      else fp)"

definition sameButOrigin :: "URL \<Rightarrow> URL \<Rightarrow> bool" where
  \<comment> \<open>two URLs that differ at most in scheme, host name and port\<close>
  "sameButOrigin a b =
     (username a = username b \<and> password a = password b \<and> pathname a = pathname b
      \<and> search a = search b \<and> hash a = hash b)"

definition spec_mirrorable :: "URL \<Rightarrow> bool" where
  \<comment> \<open>a URL with a special scheme and without credentials\<close>
  "spec_mirrorable u = (isSpecialProtocol (protocol u) \<and> username u = [] \<and> password u = [])"

fun joinWith :: "string \<Rightarrow> string list \<Rightarrow> string" where
  \<comment> \<open>the strings joined with the separator between them\<close>
  "joinWith sep [] = []"
| "joinWith sep [x] = x"
| "joinWith sep (x # y # ys) = x @ sep @ joinWith sep (y # ys)"

definition spec_partPairs :: "string list \<Rightarrow> (string \<times> string) list" where
  \<comment> \<open>each part trimmed; the parts with a space, split at their first space into URL and
      descriptor\<close>
  "spec_partPairs ps =
     map (\<lambda>p. (takeWhile (\<lambda>x. x \<noteq> CHR 0x20) p, drop 1 (dropWhile (\<lambda>x. x \<noteq> CHR 0x20) p)))
       (filter (\<lambda>p. CHR 0x20 \<in> set p) (map trim ps))"

definition spec_srcsetPairs :: "string \<Rightarrow> (string \<times> string) list" where
  \<comment> \<open>the URL and descriptor pairs of a \<^verbatim>\<open>srcset\<close> value, split on commas\<close>
  "spec_srcsetPairs v = spec_partPairs (js_split v CHR '','')"

fun pushEach :: "world \<Rightarrow> crawler \<Rightarrow> string list \<Rightarrow> cstate \<Rightarrow> string list res \<times> cstate" where
  \<comment> \<open>\<open>pushUrl\<close> on each URL in order, collecting what it returns\<close>
  "pushEach w c [] s = (Ok [], s)"
| "pushEach w c (u # us) s =
     (case pushUrl w c (Some u) s of
        (Throw e, s1) \<Rightarrow> (Throw e, s1)
      | (Ok r, s1) \<Rightarrow>
          (case pushEach w c us s1 of
             (Throw e, s2) \<Rightarrow> (Throw e, s2)
           | (Ok rs, s2) \<Rightarrow> (Ok (r # rs), s2)))"

definition spec_srcsetEntries :: "crawler \<Rightarrow> cstate \<Rightarrow> string list \<Rightarrow> (string \<times> string) list \<Rightarrow> string list" where
  \<comment> \<open>each pushed URL transformed, a space, and its descriptor\<close>
  "spec_srcsetEntries c s rs pairs =
     map (\<lambda>(r, (u, d)). transformFoundUrl c s r True @ '' '' @ d) (zip rs pairs)"

definition spec_srcsetRewrite :: "world \<Rightarrow> crawler \<Rightarrow> element \<Rightarrow> cstate \<Rightarrow> element res \<times> cstate" where
  \<comment> \<open>the \<^verbatim>\<open>srcset\<close> rewriting as the specification words it\<close>
  "spec_srcsetRewrite w c el s =
     (case getAttribute el ''srcset'' of
        None \<Rightarrow> (Ok el, s)
      | Some v \<Rightarrow>
          if v = [] then (Ok el, s)
          else
            (case pushEach w c (map fst (spec_srcsetPairs v)) s of
               (Throw e, s1) \<Rightarrow> (Throw e, s1)
             | (Ok rs, s1) \<Rightarrow>
                 (Ok (setAttribute el ''srcset''
                        (joinWith '','' (spec_srcsetEntries c s rs (spec_srcsetPairs v)))), s1)))"

section \<open>Concrete crawlers and worlds\<close>

text \<open>
  A small URL parser for the concrete runs below: scheme, host, port, path, query and
  fragment of a URL of the shape \<^verbatim>\<open>scheme://host[:port][/path][?query][#fragment]\<close>.
\<close>

fun afterScheme :: "string \<Rightarrow> string \<Rightarrow> (string \<times> string) option" where
  "afterScheme acc [] = None"
| "afterScheme acc (x # xs) =
     (if prefix ''://'' (x # xs) then Some (rev acc, drop 3 (x # xs))
      else afterScheme (x # acc) xs)"

definition exParseUrl :: "string \<Rightarrow> URL option" where
  "exParseUrl u =
     (case afterScheme [] u of
        None \<Rightarrow> None
      | Some (scheme, rest) \<Rightarrow>
          let authority = takeWhile (\<lambda>x. x \<notin> set ''/?#'') rest;
              after = dropWhile (\<lambda>x. x \<notin> set ''/?#'') rest;
              path = takeWhile (\<lambda>x. x \<notin> set ''?#'') after;
              tail = dropWhile (\<lambda>x. x \<notin> set ''?#'') after
          in Some \<lparr>protocol = scheme @ '':'', username = [], password = [],
                   hostname = takeWhile (\<lambda>x. x \<noteq> CHR '':'') authority,
                   port = drop 1 (dropWhile (\<lambda>x. x \<noteq> CHR '':'') authority),
                   pathname = (if path = [] then ''/'' else path),
                   search = takeWhile (\<lambda>x. x \<noteq> CHR ''#'') tail,
                   hash = dropWhile (\<lambda>x. x \<noteq> CHR ''#'') tail\<rparr>)"

definition notFound :: Response where
  "notFound = \<lparr>status = 404, location = None, contentType = None, elements = [], cssUrls = []\<rparr>"

definition htmlPage :: "element list \<Rightarrow> Response" where
  "htmlPage els = \<lparr>status = 200, location = None, contentType = Some ''text/html'',
                    elements = els, cssUrls = []\<rparr>"

definition cssFile :: "string list \<Rightarrow> Response" where
  "cssFile us = \<lparr>status = 200, location = None, contentType = Some ''text/css'',
                  elements = [], cssUrls = us\<rparr>"

definition pngFile :: Response where
  "pngFile = \<lparr>status = 200, location = None, contentType = Some ''image/png'',
               elements = [], cssUrls = []\<rparr>"

definition exWorld :: "(string \<times> Response) list \<Rightarrow> world" where
  \<comment> \<open>a site that answers the listed URLs and 404 elsewhere, on a file system where
      every operation succeeds\<close>
  "exWorld site =
     \<lparr>parseUrl = exParseUrl, parseUrlRel = (\<lambda>_ _. None),
      filePathOf = (\<lambda>u. if prefix ''file:///'' u
                        then Some (takeWhile (\<lambda>x. x \<notin> set ''?#'') (drop 7 u)) else None),
      path_join = (\<lambda>a b. a @ b),
      path_dirname = (\<lambda>p. rev (drop 1 (dropWhile (\<lambda>x. x \<noteq> CHR ''/'') (rev p)))),
      file_type = (\<lambda>_. ''application/octet-stream''),
      fetch = (\<lambda>_ u. case map_of site u of Some r \<Rightarrow> Some r | None \<Rightarrow> Some notFound),
      fs_mkdir = (\<lambda>_ _. True), fs_write = (\<lambda>_ _. True), fs_stat = (\<lambda>_ _. None)\<rparr>"

definition defaultCrawler :: "string \<Rightarrow> crawler" where
  \<comment> \<open>the fields as the constructor leaves them for
      \<^verbatim>\<open>new WebSiteCrawler("https://" + host, {})\<close>, with a URL mapping that fetches each
      path from the same origin\<close>
  "defaultCrawler host =
     \<lparr>newWebSite_basePath = ''https://'' @ host,
      newWebSite_lcBasePath = toLowerCase (''https://'' @ host),
      newWebSite_urlInfos = \<lparr>protocol = ''https:'', username = [], password = [],
        hostname = host, port = [], pathname = ''/'', search = [], hash = []\<rparr>,
      requiredPrefix = ''https://'' @ host,
      requiredPrefix2 = ''//'' @ host,
      requireRelocatableUrl = True,
      rewriteThisUrls = None, scanThisUrls = None,
      resolveURL = (\<lambda>p. Some \<lparr>mr_url = ''https://'' @ host @ p, wakeUpServer = False\<rparr>),
      fileSystemWriter = None, pauseDuration_ms = 0,
      transformUrl = None, canIgnoreIfAlreadyCrawled = None, sortPagesToDownload = None,
      onInvalidResponseCodeFound = None, canDownload = None, onPageFullyDownloaded = None\<rparr>"

definition onPage :: "string \<Rightarrow> cstate" where
  \<comment> \<open>a fresh crawler whose current group is the page \<open>u\<close>\<close>
  "onPage u = (initialState None)\<lparr>groups := (\<lambda>_. \<lparr>url = u, stack = Some []\<rparr>)\<rparr>"

definition entryOf :: "crawler \<Rightarrow> string option \<Rightarrow> string" where
  \<comment> \<open>the entry point \<^verbatim>\<open>start\<close> uses: its argument, or the output origin\<close>
  "entryOf c entryPoint =
     (case entryPoint of None \<Rightarrow> newWebSite_basePath c
      | Some e \<Rightarrow> if e = [] then newWebSite_basePath c else e)"

definition running :: cstate where
  \<comment> \<open>the crawler while \<^verbatim>\<open>start("https://site.example/")\<close> awaits its first fetch: the entry
      group has left the queue and is the current group\<close>
  "running =
     \<lparr>urlDone = [],
      groups = (\<lambda>_. \<lparr>url = [], stack = Some []\<rparr>)
                 (1 := \<lparr>url = ''https://site.example/'', stack = Some []\<rparr>),
      nextRef = 2, currentGroup = 1, groupStack = [], isStarted = True,
      forbiddenUrls = None, events = [Fetch ''https://site.example/'']\<rparr>"

definition constructed :: "string list \<Rightarrow> cstate" where
  \<comment> \<open>the state the constructor leaves for \<^verbatim>\<open>{forbiddenUrls: forbidden}\<close>: it calls
      \<^verbatim>\<open>forbidUrlFrom\<close> on each entry of the list, which appends to the same list\<close>
  "constructed forbidden =
     fold (\<lambda>u s. snd (forbidUrlFrom (exWorld []) (defaultCrawler ''site.example'') u s))
       forbidden (initialState (Some forbidden))"

definition homeSite :: "(string \<times> Response) list" where
  \<comment> \<open>a home page with a link to itself: \<^verbatim>\<open><a href="/">\<close>\<close>
  "homeSite = [(''https://site.example/'', htmlPage [(''a'', [(''href'', ''/'')])])]"

definition cssSite :: "(string \<times> Response) list" where
  \<comment> \<open>a page with a style sheet that refers to an image\<close>
  "cssSite =
     [(''https://site.example/'', htmlPage [(''link'', [(''href'', ''/main.css'')])]),
      (''https://site.example/main.css'', cssFile [''/img/x.png'']),
      (''https://site.example/img/x.png'', pngFile)]"

definition imgSite :: "(string \<times> Response) list" where
  \<comment> \<open>a page that refers to the same image itself\<close>
  "imgSite =
     [(''https://site.example/'', htmlPage [(''img'', [(''src'', ''/img/x.png'')])]),
      (''https://site.example/img/x.png'', pngFile)]"

definition noXPng :: crawler where
  \<comment> \<open>a crawler whose \<^verbatim>\<open>canDownload\<close> hook refuses the image\<close>
  "noXPng = (defaultCrawler ''site.example'')
     \<lparr>canDownload := Some (\<lambda>u r. u \<noteq> ''https://site.example/img/x.png'')\<rparr>"

section \<open>Facts about the string operations\<close>



lemma endsWith_char: "endsWith s [x] = (s \<noteq> [] \<and> last s = x)"
  by (cases s rule: rev_cases) (auto simp: endsWith_def suffix_def)




lemma length_takeWhile_in: "x \<in> set u \<Longrightarrow> length (takeWhile (\<lambda>y. y \<noteq> x) u) < length u"
  by (induction u) auto





section \<open>Relocatable links\<close>








section \<open>The default retry policy\<close>

lemma fetchLoop_invalid_default:
  assumes "onInvalidResponseCodeFound c = None"
    and "fetch w (events s) (mr_url m) = Some r"
    and "status r \<noteq> 200" and "\<not> (300 \<le> status r \<and> status r < 400)"
  shows "fetchLoop w c u m t k s =
     (if k < 3
      then fetchLoop w c u m t (k + 1)
             (addEvent (Tick (1000 * k)) (addEvent (Fetch (mr_url m)) s))
      else Some (Ok ERROR, addEvent (LogError u) (addEvent (Fetch (mr_url m)) s)))"
  using assms by (subst fetchLoop.simps) (auto simp: Let_def)

lemma fetchLoop_four_attempts:
  assumes hook: "onInvalidResponseCodeFound c = None"
    and bad: "\<forall>evs. \<exists>r. fetch w evs (mr_url m) = Some r \<and> status r \<noteq> 200
                \<and> \<not> (300 \<le> status r \<and> status r < 400)"
  shows "fetchLoop w c u m t 0 s =
     Some (Ok ERROR, s\<lparr>events := events s @
       [Fetch (mr_url m), Tick 0, Fetch (mr_url m), Tick 1000,
        Fetch (mr_url m), Tick 2000, Fetch (mr_url m), LogError u]\<rparr>)"
proof -
  have step: "fetchLoop w c u m t k s' =
     (if k < 3
      then fetchLoop w c u m t (k + 1)
             (addEvent (Tick (1000 * k)) (addEvent (Fetch (mr_url m)) s'))
      else Some (Ok ERROR, addEvent (LogError u) (addEvent (Fetch (mr_url m)) s')))" for k s'
  proof -
    from bad obtain r where "fetch w (events s') (mr_url m) = Some r" "status r \<noteq> 200"
      "\<not> (300 \<le> status r \<and> status r < 400)" by blast
    then show ?thesis using fetchLoop_invalid_default [OF hook] by blast
  qed
  have "fetchLoop w c u m t 0 s =
      fetchLoop w c u m t (Suc 0) (addEvent (Tick 0) (addEvent (Fetch (mr_url m)) s))"
    by (subst step) simp
  also have "\<dots> = fetchLoop w c u m t (Suc (Suc 0))
      (addEvent (Tick 1000) (addEvent (Fetch (mr_url m))
        (addEvent (Tick 0) (addEvent (Fetch (mr_url m)) s))))"
    by (subst step) simp
  also have "\<dots> = fetchLoop w c u m t (Suc (Suc (Suc 0)))
      (addEvent (Tick 2000) (addEvent (Fetch (mr_url m))
      (addEvent (Tick 1000) (addEvent (Fetch (mr_url m))
        (addEvent (Tick 0) (addEvent (Fetch (mr_url m)) s))))))"
    by (subst step) simp
  also have "\<dots> = Some (Ok ERROR, addEvent (LogError u) (addEvent (Fetch (mr_url m))
      (addEvent (Tick 2000) (addEvent (Fetch (mr_url m))
      (addEvent (Tick 1000) (addEvent (Fetch (mr_url m))
        (addEvent (Tick 0) (addEvent (Fetch (mr_url m)) s))))))))"
    by (subst step) simp
  finally show ?thesis by (simp add: addEvent_def)
qed

text \<open>
  C5.  When the URL mapping resolves \<open>u\<close>, the skip-if-cached hook does not skip it, no
  \<^verbatim>\<open>onInvalidResponseCodeFound\<close> hook is configured and every fetch of the URL answers
  with a status that is neither 200 nor in [300, 400), \<open>processUrl\<close> returns \<open>ERROR\<close>
  after exactly four fetches, with \<^verbatim>\<open>tick(0)\<close>, \<^verbatim>\<open>tick(1000)\<close> and \<^verbatim>\<open>tick(2000)\<close> after the
  first, second and third of them.
\<close>

theorem processUrl_default_retry:
  assumes "resolveURL c (substring_from u (length (newWebSite_basePath c))) = Some m"
    and "canIgnore w c (substring_from u (length (newWebSite_basePath c)))
           (if fileSystemWriter c \<noteq> None then transformFoundUrl c s u False else u) m s = Ok False"
    and "onInvalidResponseCodeFound c = None"
    and "\<forall>evs. \<exists>r. fetch w evs (mr_url m) = Some r \<and> status r \<noteq> 200
                \<and> \<not> (300 \<le> status r \<and> status r < 400)"
  shows "processUrl w c u s =
     Some (Ok ERROR, s\<lparr>events := events s
       @ (if wakeUpServer m then [WakeUp (mr_url m)] else [])
       @ (if pauseDuration_ms c \<noteq> 0 then [Tick (pauseDuration_ms c)] else [])
       @ [Fetch (mr_url m), Tick 0, Fetch (mr_url m), Tick 1000,
          Fetch (mr_url m), Tick 2000, Fetch (mr_url m), LogError u]\<rparr>)"
  using assms(1,2) fetchLoop_four_attempts [OF assms(3,4)]
  by (simp add: processUrl_def Let_def addEvent_def)


theorem processUrl_default_retry_witness:
  "map_option (\<lambda>(r, s). (r, events s))
     (processUrl (exWorld []) (defaultCrawler ''site.example'') ''https://site.example/missing''
        (initialState None))
   = Some (Ok ERROR,
       [Fetch ''https://site.example/missing'', Tick 0,
        Fetch ''https://site.example/missing'', Tick 1000,
        Fetch ''https://site.example/missing'', Tick 2000,
        Fetch ''https://site.example/missing'', LogError ''https://site.example/missing''])"
proof -
  let ?w = "exWorld []"
  let ?c = "defaultCrawler ''site.example''"
  let ?u = "''https://site.example/missing''"
  let ?m = "\<lparr>mr_url = ?u, wakeUpServer = False\<rparr>"
  let ?s = "initialState None"
  have h1: "resolveURL ?c (substring_from ?u (length (newWebSite_basePath ?c))) = Some ?m"
    by (simp add: defaultCrawler_def substring_from_def)
  have h2: "canIgnore ?w ?c (substring_from ?u (length (newWebSite_basePath ?c)))
      (if fileSystemWriter ?c \<noteq> None then transformFoundUrl ?c ?s ?u False else ?u) ?m ?s
      = Ok False"
    by (simp add: canIgnore_def defaultCrawler_def)
  have h3: "onInvalidResponseCodeFound ?c = None"
    by (simp add: defaultCrawler_def)
  have h4: "\<forall>evs. \<exists>r. fetch ?w evs (mr_url ?m) = Some r \<and> status r \<noteq> 200
                \<and> \<not> (300 \<le> status r \<and> status r < 400)"
    by (simp add: exWorld_def notFound_def)
  show ?thesis
    using processUrl_default_retry [OF h1 h2 h3 h4]
    by (simp add: defaultCrawler_def initialState_def)
qed



section \<open>From URL to file path\<close>

lemma urlScheme_file: "urlScheme (''file://'' @ rest) = ''file''"
  by (simp add: urlScheme_def)

lemma calKey_url_mirrorable:
  assumes "spec_mirrorable u"
  shows "url_setProtocol (url_setPort (url_setHostname u ''localhost'') []) ''file:''
     = u\<lparr>protocol := ''file:'', hostname := [], port := []\<rparr>"
  using assms
  by (cases u) (auto simp: spec_mirrorable_def url_setProtocol_def url_setPort_def
      url_setHostname_def isSpecialProtocol_def Let_def)

lemma url_toString_file:
  "username u = [] \<Longrightarrow> password u = [] \<Longrightarrow>
     url_toString (u\<lparr>protocol := ''file:'', hostname := [], port := []\<rparr>)
       = ''file://'' @ pathname u @ search u @ hash u"
  by (simp add: url_toString_def)

lemma calKey_mirrorable:
  assumes "spec_mirrorable u"
  shows "calKey w u =
     (case filePathOf w (''file://'' @ pathname u @ search u @ hash u) of
        None \<Rightarrow> Throw (InvalidUrl (''file://'' @ pathname u @ search u @ hash u))
      | Some k \<Rightarrow> Ok k)"
proof -
  have c: "username u = []" "password u = []" using assms by (simp_all add: spec_mirrorable_def)
  show ?thesis
    unfolding calKey_def Let_def calKey_url_mirrorable [OF assms] url_toString_file [OF c]
      fileURLToPath_def urlScheme_file
    by simp
qed

lemma calKey_same:
  assumes "spec_mirrorable a" and "spec_mirrorable b" and "sameButOrigin a b"
  shows "calKey w a = calKey w b"
proof -
  from assms(3) have e: "pathname a = pathname b" "search a = search b" "hash a = hash b"
    by (simp_all add: sameButOrigin_def)
  show ?thesis
    unfolding calKey_mirrorable [OF assms(1)] calKey_mirrorable [OF assms(2)] e ..
qed

lemma urlScheme_protocol:
  "CHR '':'' \<in> set (protocol u) \<Longrightarrow> urlScheme (url_toString u) = urlScheme (protocol u)"
  unfolding urlScheme_def url_toString_def by (simp add: takeWhile_append1)

lemma calKey_refused:
  assumes colon: "CHR '':'' \<in> set (protocol u)"
    and notfile: "urlScheme (protocol u) \<noteq> ''file''"
    and other: "\<not> isSpecialProtocol (protocol u) \<or> username u \<noteq> [] \<or> password u \<noteq> []"
  shows "calKey w u = Throw (InvalidUrl (url_toString (u\<lparr>hostname := ''localhost'', port := []\<rparr>)))"
proof -
  have nf: "protocol u \<noteq> ''file:''" using notfile by (auto simp: urlScheme_def)
  have sp: "isSpecialProtocol ''file:''" by (simp add: isSpecialProtocol_def)
  let ?u2 = "u\<lparr>hostname := ''localhost'', port := []\<rparr>"
  have u2: "url_setPort (url_setHostname u ''localhost'') [] = ?u2"
    using nf by (simp add: url_setPort_def url_setHostname_def)
  have u3: "url_setProtocol ?u2 ''file:'' = ?u2"
    using other sp by (auto simp: url_setProtocol_def)
  have "urlScheme (url_toString ?u2) \<noteq> ''file''"
    using urlScheme_protocol [of ?u2] colon notfile by simp
  then show ?thesis
    unfolding calKey_def Let_def u2 u3 fileURLToPath_def by simp
qed

lemma lastIndexOf_zero:
  "lastIndexOf s x = Some i \<Longrightarrow> (i = 0) = (x \<notin> set (drop 1 s))"
proof (cases s)
  case Nil
  assume "lastIndexOf s x = Some i"
  with Nil show ?thesis by (simp add: lastIndexOf_def)
next
  case (Cons y ys)
  assume l: "lastIndexOf s x = Some i"
  show ?thesis
  proof (cases "x \<in> set ys")
    case True
    then have "length (takeWhile (\<lambda>z. z \<noteq> x) (rev ys @ [y])) < length ys"
      using length_takeWhile_in [of x "rev ys"] by (simp add: takeWhile_append1)
    with l Cons True show ?thesis by (auto simp: lastIndexOf_def split: if_splits)
  next
    case False
    from l Cons False have yx: "y = x" by (auto simp: lastIndexOf_def split: if_splits)
    have "takeWhile (\<lambda>z. z \<noteq> x) (rev ys @ [x]) = rev ys"
      using False by (subst takeWhile_append2) auto
    with l Cons False yx show ?thesis by (simp add: lastIndexOf_def)
  qed
qed

lemma lastIndexOf_less: "lastIndexOf s x = Some i \<Longrightarrow> i < length s"
  by (cases s) (auto simp: lastIndexOf_def split: if_splits)

lemma path_extname_spec:
  assumes "fp = [] \<or> last fp \<noteq> CHR ''/''"
  shows "(path_extname fp = []) = (\<not> spec_hasExtension (spec_lastSegment fp))"
proof -
  have strip: "dropWhile (\<lambda>x. x = CHR ''/'') (rev fp) = rev fp"
    using assms by (cases fp rule: rev_cases) auto
  let ?base = "spec_lastSegment fp"
  have pe: "path_extname fp =
      (case lastIndexOf ?base CHR ''.'' of
         None \<Rightarrow> []
       | Some i \<Rightarrow> if i = 0 \<or> ?base = ''..'' then [] else substring_from ?base i)"
    unfolding path_extname_def Let_def strip rev_rev_ident spec_lastSegment_def by (rule refl)
  show ?thesis
  proof (cases "lastIndexOf ?base CHR ''.''")
    case None
    then have "CHR ''.'' \<notin> set ?base" by (auto simp: lastIndexOf_def split: if_splits)
    then have "CHR ''.'' \<notin> set (drop 1 ?base)" by (meson in_set_dropD)
    with None pe show ?thesis by (simp add: spec_hasExtension_def)
  next
    case (Some i)
    from lastIndexOf_less [OF Some] have "substring_from ?base i \<noteq> []"
      by (simp add: substring_from_def)
    with Some pe lastIndexOf_zero [OF Some] show ?thesis
      by (auto simp: spec_hasExtension_def)
  qed
qed

lemma calcFilePath_withIndex:
  "calKey w u = Ok k \<Longrightarrow> calcFilePath w rootDir u = Ok (spec_withIndex (path_join w rootDir k))"
  using path_extname_spec [of "path_join w rootDir k"]
  by (auto simp: calcFilePath_def spec_withIndex_def endsWith_char Let_def)

lemma direct_calcFilePath_withIndex:
  "direct_calKey w a = Ok k \<Longrightarrow>
     direct_calcFilePath w rootDir a = Ok (spec_withIndex (path_join w rootDir k))"
  using path_extname_spec [of "path_join w rootDir k"]
  by (auto simp: direct_calcFilePath_def spec_withIndex_def endsWith_char Let_def)


text \<open>
  C6, as amended.  \<open>calcFilePath\<close> is a function of the URL and the root directory.  For
  a URL with a special scheme (\<^verbatim>\<open>http\<close>, \<^verbatim>\<open>https\<close>, \<^verbatim>\<open>ws\<close>, \<^verbatim>\<open>wss\<close>, \<^verbatim>\<open>ftp\<close>, \<^verbatim>\<open>file\<close>) and
  no credentials, \<open>calKey\<close> replaces scheme, host name and port: the URL it hands to
  \<^verbatim>\<open>fileURLToPath\<close> is \<^verbatim>\<open>file://\<close> followed by path, query and fragment.  So two such URLs
  that differ only in scheme, host name or port get the same path, in both cache classes.
  The path joined under the root directory gets \<^verbatim>\<open>index.html\<close> appended when it ends with
  a slash, and \<^verbatim>\<open>/index.html\<close> when its last segment has no extension.
\<close>

theorem calcFilePath_mapping:
  "(spec_mirrorable u1 \<longrightarrow>
      calKey w u1 =
        (case filePathOf w (''file://'' @ pathname u1 @ search u1 @ hash u1) of
           None \<Rightarrow> Throw (InvalidUrl (''file://'' @ pathname u1 @ search u1 @ hash u1))
         | Some p \<Rightarrow> Ok p))
   \<and> (spec_mirrorable u1 \<and> spec_mirrorable u2 \<and> sameButOrigin u1 u2 \<longrightarrow>
        calcFilePath w rootDir u1 = calcFilePath w rootDir u2)
   \<and> (spec_mirrorable u1 \<and> spec_mirrorable u2 \<and> sameButOrigin u1 u2
        \<and> parseUrl w a1 = Some u1 \<and> parseUrl w a2 = Some u2 \<longrightarrow>
        direct_calcFilePath w rootDir a1 = direct_calcFilePath w rootDir a2)
   \<and> (calKey w u1 = Ok k \<longrightarrow>
        calcFilePath w rootDir u1 = Ok (spec_withIndex (path_join w rootDir k)))
   \<and> (direct_calKey w a1 = Ok k \<longrightarrow>
        direct_calcFilePath w rootDir a1 = Ok (spec_withIndex (path_join w rootDir k)))"
proof (intro conjI impI)
  assume "spec_mirrorable u1"
  then show "calKey w u1 =
        (case filePathOf w (''file://'' @ pathname u1 @ search u1 @ hash u1) of
           None \<Rightarrow> Throw (InvalidUrl (''file://'' @ pathname u1 @ search u1 @ hash u1))
         | Some p \<Rightarrow> Ok p)"
    by (rule calKey_mirrorable)
next
  assume "spec_mirrorable u1 \<and> spec_mirrorable u2 \<and> sameButOrigin u1 u2"
  then have "calKey w u1 = calKey w u2" by (simp add: calKey_same)
  then show "calcFilePath w rootDir u1 = calcFilePath w rootDir u2"
    by (simp add: calcFilePath_def)
next
  assume a: "spec_mirrorable u1 \<and> spec_mirrorable u2 \<and> sameButOrigin u1 u2
        \<and> parseUrl w a1 = Some u1 \<and> parseUrl w a2 = Some u2"
  then have "calKey w u1 = calKey w u2" by (simp add: calKey_same)
  with a show "direct_calcFilePath w rootDir a1 = direct_calcFilePath w rootDir a2"
    by (simp add: direct_calcFilePath_def direct_calKey_def)
next
  assume "calKey w u1 = Ok k"
  then show "calcFilePath w rootDir u1 = Ok (spec_withIndex (path_join w rootDir k))"
    by (rule calcFilePath_withIndex)
next
  assume "direct_calKey w a1 = Ok k"
  then show "direct_calcFilePath w rootDir a1 = Ok (spec_withIndex (path_join w rootDir k))"
    by (rule direct_calcFilePath_withIndex)
qed

theorem calcFilePath_mapping_witness:
  "calKey (exWorld []) (the (exParseUrl ''https://site.example/a/b?q=1#top'')) = Ok ''/a/b''
   \<and> calcFilePath (exWorld []) ''/out''
       (the (exParseUrl ''https://site.example/a/b'')) = Ok ''/out/a/b/index.html''
   \<and> calcFilePath (exWorld []) ''/out''
       (the (exParseUrl ''http://other.example:8080/a/b'')) = Ok ''/out/a/b/index.html''
   \<and> direct_calcFilePath (exWorld []) ''/out'' ''http://other.example:8080/a/b''
       = Ok ''/out/a/b/index.html''
   \<and> calcFilePath (exWorld []) ''/out''
       (the (exParseUrl ''https://site.example/a/'')) = Ok ''/out/a/index.html''
   \<and> calcFilePath (exWorld []) ''/out''
       (the (exParseUrl ''https://site.example/a/x.png'')) = Ok ''/out/a/x.png''
   \<and> calcFilePath (exWorld []) ''/out''
       (the (exParseUrl ''https://site.example/a/.hidden'')) = Ok ''/out/a/.hidden/index.html''"
proof -
  let ?w = "exWorld []"
  let ?q = "the (exParseUrl ''https://site.example/a/b?q=1#top'')"
  let ?u1 = "the (exParseUrl ''https://site.example/a/b'')"
  let ?u2 = "the (exParseUrl ''http://other.example:8080/a/b'')"
  let ?a2 = "''http://other.example:8080/a/b''"
  let ?d = "the (exParseUrl ''https://site.example/a/'')"
  let ?x = "the (exParseUrl ''https://site.example/a/x.png'')"
  let ?h = "the (exParseUrl ''https://site.example/a/.hidden'')"
  have m: "spec_mirrorable ?q" "spec_mirrorable ?u1" "spec_mirrorable ?u2"
    "spec_mirrorable ?d" "spec_mirrorable ?x" "spec_mirrorable ?h" by code_simp+
  have same: "sameButOrigin ?u1 ?u2" by code_simp
  have p2: "parseUrl ?w ?a2 = Some ?u2" by code_simp
  have f: "filePathOf ?w (''file://'' @ pathname ?q @ search ?q @ hash ?q) = Some ''/a/b''"
    "filePathOf ?w (''file://'' @ pathname ?u1 @ search ?u1 @ hash ?u1) = Some ''/a/b''"
    "filePathOf ?w (''file://'' @ pathname ?d @ search ?d @ hash ?d) = Some ''/a/''"
    "filePathOf ?w (''file://'' @ pathname ?x @ search ?x @ hash ?x) = Some ''/a/x.png''"
    "filePathOf ?w (''file://'' @ pathname ?h @ search ?h @ hash ?h) = Some ''/a/.hidden''"
    by code_simp+
  have j: "spec_withIndex (path_join ?w ''/out'' ''/a/b'') = ''/out/a/b/index.html''"
    "spec_withIndex (path_join ?w ''/out'' ''/a/'') = ''/out/a/index.html''"
    "spec_withIndex (path_join ?w ''/out'' ''/a/x.png'') = ''/out/a/x.png''"
    "spec_withIndex (path_join ?w ''/out'' ''/a/.hidden'') = ''/out/a/.hidden/index.html''"
    by code_simp+
  have kq: "calKey ?w ?q = Ok ''/a/b''"
    using calcFilePath_mapping [of ?q ?w] m(1) f(1) by simp
  have k1: "calKey ?w ?u1 = Ok ''/a/b''"
    using calcFilePath_mapping [of ?u1 ?w] m(2) f(2) by simp
  have kd: "calKey ?w ?d = Ok ''/a/''"
    using calcFilePath_mapping [of ?d ?w] m(4) f(3) by simp
  have kx: "calKey ?w ?x = Ok ''/a/x.png''"
    using calcFilePath_mapping [of ?x ?w] m(5) f(4) by simp
  have kh: "calKey ?w ?h = Ok ''/a/.hidden''"
    using calcFilePath_mapping [of ?h ?w] m(6) f(5) by simp
  have v1: "calcFilePath ?w ''/out'' ?u1 = Ok ''/out/a/b/index.html''"
    using calcFilePath_mapping [of ?u1 ?w ?u2 "''/out''" ?a2 ?a2 "''/a/b''"] k1 j(1) by simp
  have v2: "calcFilePath ?w ''/out'' ?u2 = Ok ''/out/a/b/index.html''"
    using calcFilePath_mapping [of ?u1 ?w ?u2 "''/out''" ?a2 ?a2 "''/a/b''"] m same v1 by simp
  have dk: "direct_calKey ?w ?a2 = calKey ?w ?u2" using p2 by (simp add: direct_calKey_def)
  have "calKey ?w ?u2 = calKey ?w ?u1"
    using calKey_same [of ?u2 ?u1 ?w] m same by (simp add: sameButOrigin_def)
  with dk k1 have "direct_calKey ?w ?a2 = Ok ''/a/b''" by simp
  then have v3: "direct_calcFilePath ?w ''/out'' ?a2 = Ok ''/out/a/b/index.html''"
    using calcFilePath_mapping [of ?u1 ?w ?u2 "''/out''" ?a2 ?a2 "''/a/b''"] j(1) by simp
  have vd: "calcFilePath ?w ''/out'' ?d = Ok ''/out/a/index.html''"
    using calcFilePath_mapping [of ?d ?w ?d "''/out''" ?a2 ?a2 "''/a/''"] kd j(2) by simp
  have vx: "calcFilePath ?w ''/out'' ?x = Ok ''/out/a/x.png''"
    using calcFilePath_mapping [of ?x ?w ?x "''/out''" ?a2 ?a2 "''/a/x.png''"] kx j(3) by simp
  have vh: "calcFilePath ?w ''/out'' ?h = Ok ''/out/a/.hidden/index.html''"
    using calcFilePath_mapping [of ?h ?w ?h "''/out''" ?a2 ?a2 "''/a/.hidden''"] kh j(4) by simp
  from kq v1 v2 v3 vd vx vh show ?thesis by simp
qed

text \<open>
  C6 as stated fails for a URL whose scheme is not special, and for one with credentials:
  the protocol setter leaves the scheme, and \<^verbatim>\<open>fileURLToPath\<close> throws.
  \<^verbatim>\<open>foo://site.example/a/b\<close> and \<^verbatim>\<open>https://site.example/a/b\<close> differ in the scheme only; the
  first makes \<open>calcFilePath\<close> throw, the second gets a path.
\<close>

theorem calcFilePath_other_scheme_throws:
  "sameButOrigin (the (exParseUrl ''foo://site.example/a/b''))
     (the (exParseUrl ''https://site.example/a/b''))
   \<and> calcFilePath (exWorld []) ''/out'' (the (exParseUrl ''foo://site.example/a/b''))
       = Throw (InvalidUrl ''foo://localhost/a/b'')
   \<and> direct_calcFilePath (exWorld []) ''/out'' ''foo://site.example/a/b''
       = Throw (InvalidUrl ''foo://localhost/a/b'')
   \<and> calcFilePath (exWorld []) ''/out'' (the (exParseUrl ''https://site.example/a/b''))
       = Ok ''/out/a/b/index.html''
   \<and> direct_calcFilePath (exWorld []) ''/out'' ''https://site.example/a/b''
       = Ok ''/out/a/b/index.html''
   \<and> calcFilePath (exWorld []) ''/out''
       ((the (exParseUrl ''https://site.example/a/b''))\<lparr>username := ''user''\<rparr>)
       = Throw (InvalidUrl ''https://user@localhost/a/b'')"
  by code_simp

section \<open>Writing to the mirror cache\<close>





section \<open>Admission\<close>

lemma stackPush_frame:
  "events (stackPush u s) = events s" "isStarted (stackPush u s) = isStarted s"
  "groupStack (stackPush u s) = groupStack s" "currentGroup (stackPush u s) = currentGroup s"
  "nextRef (stackPush u s) = nextRef s" "urlDone (stackPush u s) = urlDone s"
  "forbiddenUrls (stackPush u s) = forbiddenUrls s"
  "url (groups (stackPush u s) g) = url (groups s g)"
  by (simp_all add: stackPush_def Let_def)

lemma pushUrl_frame:
  assumes "pushUrl w c x s = (r, s')"
  shows "events s' = events s \<and> isStarted s' = isStarted s \<and> groupStack s' = groupStack s
    \<and> currentGroup s' = currentGroup s \<and> nextRef s' = nextRef s
    \<and> forbiddenUrls s' = forbiddenUrls s \<and> (\<forall>g. url (groups s' g) = url (groups s g))
    \<and> (urlDone s' = urlDone s \<or> (\<exists>u. urlDone s' = urlDone s @ [u]))"
  using assms
  by (auto simp: pushUrl_def Let_def stackPush_frame split: option.splits res.splits if_splits)

lemma pushAll_frame:
  "pushAll w c us s = (r, s') \<Longrightarrow>
     events s' = events s \<and> isStarted s' = isStarted s \<and> groupStack s' = groupStack s
     \<and> currentGroup s' = currentGroup s \<and> nextRef s' = nextRef s
     \<and> (\<forall>g. url (groups s' g) = url (groups s g))"
proof (induction us arbitrary: s)
  case Nil
  then show ?case by simp
next
  case (Cons u us)
  obtain r1 s1 where p: "pushUrl w c (Some u) s = (r1, s1)" by (cases "pushUrl w c (Some u) s")
  note f = pushUrl_frame [OF p]
  show ?case
  proof (cases r1)
    case (Ok x)
    with Cons.prems p have "pushAll w c us s1 = (r, s')" by simp
    from Cons.IH [OF this] f show ?thesis by simp
  next
    case (Throw e)
    with Cons.prems p have "s' = s1" by simp
    with f show ?thesis by simp
  qed
qed

lemma find_prefix_nonempty:
  "[] \<notin> set fs \<Longrightarrow>
     (case find P fs of None \<Rightarrow> False | Some found \<Rightarrow> found \<noteq> []) = (\<exists>p\<in>set fs. P p)"
  by (induction fs) auto

lemma isForbidden_iff:
  assumes "forbiddenUrls s = Some fs" and "[] \<notin> set fs"
  shows "isForbidden s u = (\<exists>p\<in>set fs. startsWith u p)"
proof -
  have "isForbidden s u = (u \<in> set fs \<or> (\<exists>p\<in>set fs. startsWith u p))"
    using assms find_prefix_nonempty [of fs "startsWith u"]
    by (simp add: isForbidden_def)
  moreover have "u \<in> set fs \<Longrightarrow> \<exists>p\<in>set fs. startsWith u p"
    by (auto simp: startsWith_def)
  ultimately show ?thesis by blast
qed

lemma pushUrl_admission:
  assumes "cleanUpUrl w c s (Some ua) = Ok (Some u)" and "ua \<noteq> []" and "u \<noteq> []"
  shows "pushUrl w c (Some ua) s =
     (if u \<in> set (urlDone s) then (Ok u, s)
      else if isForbidden s u then (Ok u, s\<lparr>urlDone := urlDone s @ [u]\<rparr>)
      else (Ok u, stackPush u (s\<lparr>urlDone := urlDone s @ [u]\<rparr>)))"
  using assms by (simp add: pushUrl_def Let_def isForbidden_def)


text \<open>
  C2.  \<open>pushUrl\<close> on \<^verbatim>\<open>/wp-json/users\<close> for a crawler built with
  \<^verbatim>\<open>forbiddenUrls: ["", "/wp-json"]\<close>: the URL starts with the forbidden prefix
  \<^verbatim>\<open>https://site.example/wp-json\<close>, is added to the seen set, and is appended to the current
  group's stack all the same, because \<^verbatim>\<open>find\<close> returns the empty entry, which is falsy.
  With \<^verbatim>\<open>forbiddenUrls: ["/wp-json"]\<close> the stack stays empty.
\<close>

theorem pushUrl_forbidden_after_empty_entry:
  "forbiddenUrls (constructed ['''', ''/wp-json''])
     = Some ['''', ''/wp-json'', ''https://site.example/wp-json'']
   \<and> (case pushUrl (exWorld []) (defaultCrawler ''site.example'') (Some ''/wp-json/users'')
            (constructed ['''', ''/wp-json'']) of
        (r, s) \<Rightarrow> (r, urlDone s, stack (groups s (currentGroup s))))
      = (Ok ''https://site.example/wp-json/users'', [''https://site.example/wp-json/users''],
         Some [''https://site.example/wp-json/users''])
   \<and> (case pushUrl (exWorld []) (defaultCrawler ''site.example'') (Some ''/wp-json/users'')
            (constructed [''/wp-json'']) of
        (r, s) \<Rightarrow> (r, urlDone s, stack (groups s (currentGroup s))))
      = (Ok ''https://site.example/wp-json/users'', [''https://site.example/wp-json/users''],
         Some [])"
  by code_simp

section \<open>Traversal\<close>

text \<open>
  C1.  A crawl started at \<^verbatim>\<open>https://site.example/\<close> on a site whose home page links to
  \<^verbatim>\<open>/\<close>: \<open>start\<close> does not record the entry point in \<open>urlDone\<close>, so the link is admitted as
  a new URL and the entry point is fetched a second time.
\<close>

theorem start_fetches_entry_twice:
  "map_option (\<lambda>(r, s). (r, events s, urlDone s))
     (start (exWorld homeSite) (defaultCrawler ''site.example'') (Some ''https://site.example/'')
        (initialState None))
   = Some (Ok (), [Fetch ''https://site.example/'', Fetch ''https://site.example/''],
           [''https://site.example/''])"
  by code_simp

text \<open>
  C8.  With a \<^verbatim>\<open>canDownload\<close> hook that refuses \<^verbatim>\<open>https://site.example/img/x.png\<close>: when the
  page itself refers to the image, the image is dropped and never fetched; when the page's
  style sheet refers to it, the image is pushed while the group's resources are drained,
  taken from the group's stack without asking the hook, and fetched.
\<close>

theorem canDownload_skipped_mid_drain:
  "map_option (\<lambda>(r, s). (r, events s))
     (start (exWorld imgSite) noXPng (Some ''https://site.example/'') (initialState None))
   = Some (Ok (), [Fetch ''https://site.example/''])
   \<and> map_option (\<lambda>(r, s). (r, events s))
     (start (exWorld cssSite) noXPng (Some ''https://site.example/'') (initialState None))
   = Some (Ok (), [Fetch ''https://site.example/'', Fetch ''https://site.example/main.css'',
                   Fetch ''https://site.example/img/x.png''])"
  by code_simp

section \<open>A second \<^verbatim>\<open>start\<close> during a crawl\<close>

text \<open>
  What the \<^verbatim>\<open>isStarted\<close> test does achieve: \<open>start\<close> on a running crawler returns at once
  and causes no event.
\<close>

lemma start_while_running:
  assumes "isStarted s"
  shows "\<exists>r s'. start w c entryPoint s = Some (r, s')
     \<and> events s' = events s \<and> isStarted s'
     \<and> groupStack s' = groupStack s @ [nextRef s]
     \<and> currentGroup s' = nextRef s
     \<and> currentGroup_url s' = entryOf c entryPoint
     \<and> (scanThisUrls c = None \<longrightarrow> urlDone s' = urlDone s)"
proof -
  define s2 where "s2 = s\<lparr>groups := (groups s)(nextRef s := \<lparr>url = entryOf c entryPoint, stack = Some []\<rparr>),
      nextRef := Suc (nextRef s), groupStack := groupStack s @ [nextRef s], currentGroup := nextRef s\<rparr>"
  obtain r3 s3 where scan: "(case scanThisUrls c of None \<Rightarrow> (Ok (), s2) | Some us \<Rightarrow> pushAll w c us s2) = (r3, s3)"
    by (cases "case scanThisUrls c of None \<Rightarrow> (Ok (), s2) | Some us \<Rightarrow> pushAll w c us s2")
  have f: "events s3 = events s2 \<and> isStarted s3 = isStarted s2 \<and> groupStack s3 = groupStack s2
     \<and> currentGroup s3 = currentGroup s2 \<and> (\<forall>g. url (groups s3 g) = url (groups s2 g))
     \<and> (scanThisUrls c = None \<longrightarrow> urlDone s3 = urlDone s2)"
    using scan pushAll_frame [of w c _ s2 r3 s3] by (cases "scanThisUrls c") auto
  have st0: "start w c entryPoint s =
      (case (case scanThisUrls c of None \<Rightarrow> (Ok (), s2) | Some us \<Rightarrow> pushAll w c us s2) of
         (Throw e, s3) \<Rightarrow> Some (Throw e, s3)
       | (Ok _, s3) \<Rightarrow> processStack w c s3)"
    by (cases "scanThisUrls c") (simp_all add: start_def newGroup_def Let_def s2_def entryOf_def)
  have st: "start w c entryPoint s =
      (case r3 of Throw e \<Rightarrow> Some (Throw e, s3) | Ok _ \<Rightarrow> processStack w c s3)"
    unfolding st0 scan by simp
  have started: "isStarted s3" using f assms by (simp add: s2_def)
  have "start w c entryPoint s = Some (r3, s3)"
    using st started by (cases r3) (simp_all add: processStack_def)
  moreover have "events s3 = events s" "groupStack s3 = groupStack s @ [nextRef s]"
    "currentGroup s3 = nextRef s" "currentGroup_url s3 = entryOf c entryPoint"
    "scanThisUrls c = None \<longrightarrow> urlDone s3 = urlDone s"
    using f by (simp_all add: s2_def currentGroup_url_def)
  ultimately show ?thesis using started
    by (intro exI [of _ r3] exI [of _ s3]) simp
qed


text \<open>
  C9.  A second \<open>start\<close> while \<^verbatim>\<open>start("https://site.example/")\<close> awaits its first fetch: the
  call causes no event, but the \<^verbatim>\<open>isStarted\<close> test comes only in \<^verbatim>\<open>processStack\<close>, after
  \<open>start\<close> has appended a new group to the group queue and made it the current group.
  The traversal state is changed, and a link \<^verbatim>\<open>/about\<close> that the page of the running
  group then pushes lands on the stack of the new group, not on its own.
\<close>

theorem second_start_changes_state:
  "isStarted running
   \<and> groupStack running = []
   \<and> currentGroup running = 1
   \<and> map_option (\<lambda>(r, s). (r, groupStack s, currentGroup s, currentGroup_url s, events s))
        (start (exWorld []) (defaultCrawler ''site.example'') (Some ''https://site.example/other'')
           running)
      = Some (Ok (), [2], 2, ''https://site.example/other'', [Fetch ''https://site.example/''])
   \<and> map_option
        (\<lambda>(r, s). case pushUrl (exWorld []) (defaultCrawler ''site.example'') (Some ''/about'') s of
                     (r', s') \<Rightarrow> (r', stack (groups s' 1), stack (groups s' 2)))
        (start (exWorld []) (defaultCrawler ''site.example'') (Some ''https://site.example/other'')
           running)
      = Some (Ok ''https://site.example/about'', Some [], Some [''https://site.example/about''])"
  by code_simp

section \<open>The \<^verbatim>\<open>srcset\<close> handler\<close>

lemma pushUrl_currentGroup_url:
  "pushUrl w c x s = (r, s') \<Longrightarrow> currentGroup_url s' = currentGroup_url s"
  using pushUrl_frame [of w c x s r s'] by (simp add: currentGroup_url_def)

lemma buildFileSystemUrl_cong:
  assumes cu: "currentGroup_url s' = currentGroup_url s"
  shows "urlTool_buildFileSystemUrl c s' u = urlTool_buildFileSystemUrl c s u"
  unfolding urlTool_buildFileSystemUrl_def cu ..

lemma transformFoundUrl_cong:
  assumes cu: "currentGroup_url s' = currentGroup_url s"
  shows "transformFoundUrl c s' u b = transformFoundUrl c s u b"
  unfolding transformFoundUrl_def cu buildFileSystemUrl_cong [OF cu] ..

lemma spec_srcsetEntries_cong:
  assumes cu: "currentGroup_url s' = currentGroup_url s"
  shows "spec_srcsetEntries c s' rs pairs = spec_srcsetEntries c s rs pairs"
  unfolding spec_srcsetEntries_def transformFoundUrl_cong [OF cu] ..

lemma trim_prefix: "\<exists>zs. dropWhile js_ws s = trim s @ zs"
proof -
  let ?t = "dropWhile js_ws s"
  have "rev ?t = takeWhile js_ws (rev ?t) @ dropWhile js_ws (rev ?t)" by simp
  then have "?t = rev (dropWhile js_ws (rev ?t)) @ rev (takeWhile js_ws (rev ?t))"
    by (metis rev_append rev_rev_ident)
  then show ?thesis unfolding trim_def by blast
qed

lemma trim_hd: "trim s \<noteq> [] \<Longrightarrow> \<not> js_ws (hd (trim s))"
proof -
  assume ne: "trim s \<noteq> []"
  obtain zs where z: "dropWhile js_ws s = trim s @ zs" using trim_prefix by blast
  with ne have "dropWhile js_ws s \<noteq> []" by auto
  then have "\<not> js_ws (hd (dropWhile js_ws s))" by (rule hd_dropWhile)
  with z ne show ?thesis by simp
qed

lemma js_ws_space: "js_ws (CHR 0x20)"
  by (simp add: js_ws_def)

lemma trim_first_word: "CHR 0x20 \<in> set (trim s) \<Longrightarrow> takeWhile (\<lambda>x. x \<noteq> CHR 0x20) (trim s) \<noteq> []"
proof -
  assume "CHR 0x20 \<in> set (trim s)"
  then have ne: "trim s \<noteq> []" by auto
  then have "hd (trim s) \<noteq> CHR 0x20" using trim_hd js_ws_space by metis
  with ne show ?thesis by (cases "trim s") auto
qed

lemma srcsetLoop_step:
  "srcsetLoop w c (p0 # ps) acc s =
     (if CHR 0x20 \<notin> set (trim p0) then srcsetLoop w c ps acc s
      else
        (case pushUrl w c (Some (takeWhile (\<lambda>x. x \<noteq> CHR 0x20) (trim p0))) s of
           (Throw e, s1) \<Rightarrow> (Throw e, s1)
         | (Ok newUrl, s1) \<Rightarrow>
             srcsetLoop w c ps
               (acc @ '','' @ transformFoundUrl c s1 newUrl True @ '' ''
                  @ drop 1 (dropWhile (\<lambda>x. x \<noteq> CHR 0x20) (trim p0))) s1))"
proof (cases "CHR 0x20 \<in> set (trim p0)")
  case False
  then show ?thesis by (simp add: indexOf_def Let_def)
next
  case True
  have u: "substring (trim p0) 0 (length (takeWhile (\<lambda>x. x \<noteq> CHR 0x20) (trim p0)))
      = takeWhile (\<lambda>x. x \<noteq> CHR 0x20) (trim p0)"
    by (simp add: substring_def takeWhile_eq_take [symmetric])
  have d: "substring_from (trim p0) (length (takeWhile (\<lambda>x. x \<noteq> CHR 0x20) (trim p0)) + 1)
      = drop 1 (dropWhile (\<lambda>x. x \<noteq> CHR 0x20) (trim p0))"
    by (simp add: substring_from_def dropWhile_eq_drop)
  show ?thesis
    using True trim_first_word [OF True]
    by (simp add: indexOf_def Let_def u d del: One_nat_def split: prod.splits res.splits)
qed


lemma spec_partPairs_Cons:
  "spec_partPairs (p0 # ps) =
     (if CHR 0x20 \<in> set (trim p0)
      then (takeWhile (\<lambda>x. x \<noteq> CHR 0x20) (trim p0),
            drop 1 (dropWhile (\<lambda>x. x \<noteq> CHR 0x20) (trim p0))) # spec_partPairs ps
      else spec_partPairs ps)"
  by (simp add: spec_partPairs_def)

lemma spec_srcsetEntries_Cons:
  "spec_srcsetEntries c s (r # rs) ((u, d) # pairs) =
     (transformFoundUrl c s r True @ '' '' @ d) # spec_srcsetEntries c s rs pairs"
  by (simp add: spec_srcsetEntries_def)

lemma srcsetLoop_spec:
  "srcsetLoop w c ps acc s =
     (case pushEach w c (map fst (spec_partPairs ps)) s of
        (Throw e, s1) \<Rightarrow> (Throw e, s1)
      | (Ok rs, s1) \<Rightarrow>
          (Ok (acc @ concat (map (\<lambda>e. '','' @ e)
                 (spec_srcsetEntries c s rs (spec_partPairs ps)))), s1))"
proof (induction ps arbitrary: acc s)
  case Nil
  show ?case by (simp add: spec_partPairs_def spec_srcsetEntries_def)
next
  case (Cons p0 ps)
  show ?case
  proof (cases "CHR 0x20 \<in> set (trim p0)")
    case False
    then show ?thesis
      by (simp only: srcsetLoop_step spec_partPairs_Cons if_False if_True Cons.IH simp_thms)
  next
    case True
    let ?u = "takeWhile (\<lambda>x. x \<noteq> CHR 0x20) (trim p0)"
    let ?d = "drop 1 (dropWhile (\<lambda>x. x \<noteq> CHR 0x20) (trim p0))"
    obtain r1 s1 where p: "pushUrl w c (Some ?u) s = (r1, s1)"
      by (cases "pushUrl w c (Some ?u) s")
    have cu: "currentGroup_url s1 = currentGroup_url s"
      using p by (rule pushUrl_currentGroup_url)
    show ?thesis
    proof (cases r1)
      case (Throw e)
      with True p show ?thesis
        by (simp add: srcsetLoop_step spec_partPairs_Cons del: srcsetLoop.simps)
    next
      case (Ok newUrl)
      obtain r2 s2 where q: "pushEach w c (map fst (spec_partPairs ps)) s1 = (r2, s2)"
        by (cases "pushEach w c (map fst (spec_partPairs ps)) s1")
      have lhs: "srcsetLoop w c (p0 # ps) acc s =
          srcsetLoop w c ps (acc @ '','' @ transformFoundUrl c s newUrl True @ '' '' @ ?d) s1"
        using True p Ok
        by (simp add: srcsetLoop_step transformFoundUrl_cong [OF cu] del: srcsetLoop.simps)
      show ?thesis
      proof (cases r2)
        case (Throw e)
        with True p Ok q lhs show ?thesis
          by (simp add: Cons.IH spec_partPairs_Cons del: srcsetLoop.simps)
      next
        case rs: (Ok rs)
        with True p Ok q lhs show ?thesis
          by (simp add: Cons.IH spec_partPairs_Cons spec_srcsetEntries_Cons
              spec_srcsetEntries_cong [OF cu] del: srcsetLoop.simps)
      qed
    qed
  qed
qed

lemma concat_sep_join:
  "concat (map (\<lambda>e. sep @ e) (y # ys)) = sep @ joinWith sep (y # ys)"
proof (induction ys arbitrary: y)
  case Nil
  show ?case by simp
next
  case (Cons a ys)
  have "concat (map (\<lambda>e. sep @ e) (y # a # ys))
      = (sep @ y) @ concat (map (\<lambda>e. sep @ e) (a # ys))" by simp
  also have "\<dots> = (sep @ y) @ sep @ joinWith sep (a # ys)"
    by (simp only: Cons.IH)
  also have "\<dots> = sep @ joinWith sep (y # a # ys)" by simp
  finally show ?case .
qed

lemma concat_comma_join:
  "substring_from (concat (map (\<lambda>e. '','' @ e) es)) 1 = joinWith '','' es"
proof (cases es)
  case Nil
  then show ?thesis by (simp add: substring_from_def)
next
  case (Cons y ys)
  show ?thesis
    unfolding Cons concat_sep_join substring_from_def by simp
qed

lemma srcsetHandler_spec: "srcsetHandler w c el s = spec_srcsetRewrite w c el s"
proof (cases "getAttribute el ''srcset''")
  case None
  then show ?thesis by (simp add: srcsetHandler_def spec_srcsetRewrite_def)
next
  case (Some v)
  show ?thesis
  proof (cases "pushEach w c (map fst (spec_srcsetPairs v)) s")
    case (Pair r s1)
    then have l: "srcsetLoop w c (js_split v CHR '','') [] s =
        (case r of Throw e \<Rightarrow> (Throw e, s1)
         | Ok rs \<Rightarrow> (Ok (concat (map (\<lambda>e. '','' @ e)
                 (spec_srcsetEntries c s rs (spec_srcsetPairs v)))), s1))"
      unfolding srcsetLoop_spec spec_srcsetPairs_def by (cases r) simp_all
    show ?thesis
    proof (cases "v = []")
      case True
      with Some show ?thesis by (simp add: srcsetHandler_def spec_srcsetRewrite_def)
    next
      case False
      have "srcsetHandler w c el s =
          (case r of Throw e \<Rightarrow> (Throw e, s1)
           | Ok rs \<Rightarrow> (Ok (setAttribute el ''srcset'' (joinWith '',''
                 (spec_srcsetEntries c s rs (spec_srcsetPairs v)))), s1))"
        using Some False l
        by (cases r) (simp_all add: srcsetHandler_def concat_comma_join del: One_nat_def)
      moreover have "spec_srcsetRewrite w c el s =
          (case r of Throw e \<Rightarrow> (Throw e, s1)
           | Ok rs \<Rightarrow> (Ok (setAttribute el ''srcset'' (joinWith '',''
                 (spec_srcsetEntries c s rs (spec_srcsetPairs v)))), s1))"
        using Some False Pair by (cases r) (simp_all add: spec_srcsetRewrite_def)
      ultimately show ?thesis by simp
    qed
  qed
qed


lemma pushEach_length:
  "pushEach w c us s = (Ok rs, s1) \<Longrightarrow> length rs = length us"
proof (induction us arbitrary: s rs s1)
  case Nil
  then show ?case by simp
next
  case (Cons u us)
  obtain r1 s' where p: "pushUrl w c (Some u) s = (r1, s')" by (cases "pushUrl w c (Some u) s")
  obtain r2 s'' where q: "pushEach w c us s' = (r2, s'')" by (cases "pushEach w c us s'")
  from Cons.prems p q obtain x xs where "r1 = Ok x" "r2 = Ok xs" "rs = x # xs"
    by (cases r1; cases r2) auto
  with Cons.IH [of s' xs s''] q show ?case by simp
qed

lemma transformFoundUrl_empty:
  assumes "transformUrl c = None" and "requireRelocatableUrl c"
    and "\<not> startsWith ''/index.html'' (newWebSite_lcBasePath c)"
  shows "transformFoundUrl c s [] True = ''/index.html''"
  using assms
  by (simp add: transformFoundUrl_def urlTool_buildFileSystemUrl_def indexOf_def lastIndexOf_def
      endsWith_def Let_def)

text \<open>
  C4, as amended.  The \<^verbatim>\<open>srcset\<close> handler splits the value on commas, trims each part,
  splits it at its first space into URL and descriptor, drops the parts without a space,
  pushes each URL in order, and sets the attribute to the transformed results, each
  followed by a space and its descriptor, joined with commas.  For
  \<^verbatim>\<open><img srcset="/p/a.png 1x, /p/b.png 2x">\<close> on the page \<^verbatim>\<open>https://site.example/p/\<close>, both
  \<^verbatim>\<open>https://site.example/p/a.png\<close> and \<^verbatim>\<open>https://site.example/p/b.png\<close> are admitted and
  the rewritten attribute is \<^verbatim>\<open>../p/a.png 1x,../p/b.png 2x\<close>.
\<close>

theorem srcset_rewrite:
  "srcsetHandler w c el s = spec_srcsetRewrite w c el s
   \<and> (case srcsetHandler (exWorld []) (defaultCrawler ''site.example'')
              (''img'', [(''srcset'', ''/p/a.png 1x, /p/b.png 2x'')])
              (onPage ''https://site.example/p/'') of
         (r, s') \<Rightarrow> (r, urlDone s'))
      = (Ok (''img'', [(''srcset'', ''../p/a.png 1x,../p/b.png 2x'')]),
         [''https://site.example/p/a.png'', ''https://site.example/p/b.png''])"
proof
  show "srcsetHandler w c el s = spec_srcsetRewrite w c el s"
    by (rule srcsetHandler_spec)
next
  show "(case srcsetHandler (exWorld []) (defaultCrawler ''site.example'')
              (''img'', [(''srcset'', ''/p/a.png 1x, /p/b.png 2x'')])
              (onPage ''https://site.example/p/'') of
         (r, s') \<Rightarrow> (r, urlDone s'))
      = (Ok (''img'', [(''srcset'', ''../p/a.png 1x,../p/b.png 2x'')]),
         [''https://site.example/p/a.png'', ''https://site.example/p/b.png''])"
    by code_simp
qed

theorem srcset_rewrite_witness:
  "(case spec_srcsetRewrite (exWorld []) (defaultCrawler ''site.example'')
            (''img'', [(''srcset'', ''/p/a.png 480w, no-descriptor ,/p/b.png  2x'')])
            (onPage ''https://site.example/p/'') of
      (r, s') \<Rightarrow> (r, urlDone s'))
   = (Ok (''img'', [(''srcset'', ''../p/a.png 480w,../p/b.png  2x'')]),
      [''https://site.example/p/a.png'', ''https://site.example/p/b.png''])"
proof -
  have "(case srcsetHandler (exWorld []) (defaultCrawler ''site.example'')
            (''img'', [(''srcset'', ''/p/a.png 480w, no-descriptor ,/p/b.png  2x'')])
            (onPage ''https://site.example/p/'') of
      (r, s') \<Rightarrow> (r, urlDone s'))
   = (Ok (''img'', [(''srcset'', ''../p/a.png 480w,../p/b.png  2x'')]),
      [''https://site.example/p/a.png'', ''https://site.example/p/b.png''])"
    by code_simp
  with srcset_rewrite [of "exWorld []" "defaultCrawler ''site.example''"
      "(''img'', [(''srcset'', ''/p/a.png 480w, no-descriptor ,/p/b.png  2x'')])"
      "onPage ''https://site.example/p/''"]
  show ?thesis by simp
qed

text \<open>
  C4 as stated fails at its example: \<^verbatim>\<open>a.png\<close> and \<^verbatim>\<open>b.png\<close> are neither resolved against
  the page nor admitted, and the attribute becomes \<^verbatim>\<open>/index.html 1x,/index.html 2x\<close>.
\<close>

theorem srcset_bare_relative_rejected:
  "(case srcsetHandler (exWorld []) (defaultCrawler ''site.example'')
            (''img'', [(''srcset'', ''a.png 1x, b.png 2x'')])
            (onPage ''https://site.example/p/'') of
      (r, s') \<Rightarrow> (r, urlDone s'))
   = (Ok (''img'', [(''srcset'', ''/index.html 1x,/index.html 2x'')]), [])"
  by code_simp

text \<open>
  C10.  With no \<^verbatim>\<open>transformUrl\<close> hook and the relocatable setting on, every \<^verbatim>\<open>srcset\<close>
  entry whose URL \<open>pushUrl\<close> rejects (it returns the empty string) appears in the
  rewritten attribute as \<^verbatim>\<open>/index.html\<close>, a space and the entry's descriptor: the original
  URL is not kept.
\<close>

theorem srcset_rejected_entry:
  assumes "transformUrl c = None" and "requireRelocatableUrl c"
    and "\<not> startsWith ''/index.html'' (newWebSite_lcBasePath c)"
    and "getAttribute el ''srcset'' = Some v" and "v \<noteq> []"
    and "pushEach w c (map fst (spec_srcsetPairs v)) s = (Ok rs, s1)"
    and "i < length (spec_srcsetPairs v)" and "rs ! i = []"
  shows "\<exists>entries.
      srcsetHandler w c el s = (Ok (setAttribute el ''srcset'' (joinWith '','' entries)), s1)
      \<and> length entries = length (spec_srcsetPairs v)
      \<and> entries ! i = ''/index.html '' @ snd (spec_srcsetPairs v ! i)"
proof -
  let ?pairs = "spec_srcsetPairs v"
  let ?entries = "spec_srcsetEntries c s rs ?pairs"
  have len: "length rs = length ?pairs"
    using pushEach_length [OF assms(6)] by simp
  have h: "srcsetHandler w c el s = (Ok (setAttribute el ''srcset'' (joinWith '','' ?entries)), s1)"
    using assms(4,5,6) by (simp add: srcsetHandler_spec spec_srcsetRewrite_def)
  have l: "length ?entries = length ?pairs"
    using len by (simp add: spec_srcsetEntries_def)
  have "?entries ! i = transformFoundUrl c s (rs ! i) True @ '' '' @ snd (?pairs ! i)"
    using assms(7) len by (simp add: spec_srcsetEntries_def case_prod_beta)
  then have e: "?entries ! i = ''/index.html '' @ snd (?pairs ! i)"
    using assms(8) transformFoundUrl_empty [OF assms(1,2,3)] by simp
  from h l e show ?thesis by blast
qed

theorem srcset_rejected_entry_witness:
  "\<exists>entries s1.
      srcsetHandler (exWorld []) (defaultCrawler ''site.example'')
        (''img'', [(''srcset'', ''https://cdn.example/a.png 1x, /p/a.png 2x'')])
        (onPage ''https://site.example/p/'')
        = (Ok (''img'', [(''srcset'', joinWith '','' entries)]), s1)
      \<and> length entries = 2 \<and> entries ! 0 = ''/index.html 1x''"
proof -
  let ?w = "exWorld []"
  let ?c = "defaultCrawler ''site.example''"
  let ?v = "''https://cdn.example/a.png 1x, /p/a.png 2x''"
  let ?el = "(''img'', [(''srcset'', ?v)])"
  let ?s = "onPage ''https://site.example/p/''"
  let ?s1 = "snd (pushEach ?w ?c (map fst (spec_srcsetPairs ?v)) ?s)"
  have h1: "transformUrl ?c = None" by code_simp
  have h2: "requireRelocatableUrl ?c" by code_simp
  have h3: "\<not> startsWith ''/index.html'' (newWebSite_lcBasePath ?c)" by code_simp
  have h4: "getAttribute ?el ''srcset'' = Some ?v" by code_simp
  have h5: "?v \<noteq> []" by simp
  have "fst (pushEach ?w ?c (map fst (spec_srcsetPairs ?v)) ?s)
      = Ok ['''', ''https://site.example/p/a.png'']" by code_simp
  then have h6: "pushEach ?w ?c (map fst (spec_srcsetPairs ?v)) ?s
      = (Ok ['''', ''https://site.example/p/a.png''], ?s1)"
    by (simp add: prod_eq_iff)
  have p: "spec_srcsetPairs ?v = [(''https://cdn.example/a.png'', ''1x''), (''/p/a.png'', ''2x'')]"
    by code_simp
  have h7: "0 < length (spec_srcsetPairs ?v)" unfolding p by simp
  have h8: "['''', ''https://site.example/p/a.png''] ! 0 = []" by simp
  have sa: "setAttribute ?el ''srcset'' x = (''img'', [(''srcset'', x)])" for x
    by (simp add: setAttribute_def)
  from srcset_rejected_entry [OF h1 h2 h3 h4 h5 h6 h7 h8]
  show ?thesis unfolding p sa by auto
qed


end
